theory Spec2Isabelle
  imports Complex_Main "HOL-Library.Word"
begin

section \<open>Handling of VM disk images: a model of \<^verbatim>\<open>ironic/common/images.py\<close>\<close>

text \<open>
  The Python functions are embedded as HOL functions of the same name. Exceptions are
  values of the type \<open>error\<close> on the left of a sum, the process-wide configuration
  \<^verbatim>\<open>CONF\<close> is the record \<open>conf\<close> passed as an argument, and what a function
  does besides returning (files, log lines, external tools) is recorded in the record
  \<open>world\<close>, which each effectful function takes and returns. Libraries and tools
  outside the module (the format inspector, the converter, the decompressor, floating
  point rounding) are the fields of the record \<open>host\<close>: the functions below are
  verified for every host. Log lines of level debug are not recorded. The leading
  underscores of a Python name are dropped.
\<close>

subsection \<open>Exceptions\<close>

datatype error =
    InvalidImage
  | ImageUnacceptable
  | ImageConvertFailed
  | ImageCreationFailed
  | ImageFormatError
  | SafetyCheckFailed
  | ImageRefValidationFailed
  | ProcessExecutionError
  | OSError
  | FileNotFoundError
  | AttributeError
  | TypeError
  | IndexError
  | ValueError
  | OverflowError

text \<open>
  \<^verbatim>\<open>FileNotFoundError\<close> is a subclass of \<^verbatim>\<open>OSError\<close> in Python;
  \<^verbatim>\<open>processutils.ProcessExecutionError\<close> derives from \<^verbatim>\<open>Exception\<close> only.
  \<open>is_OSError\<close> is what \<^verbatim>\<open>except OSError\<close> (and its alias
  \<^verbatim>\<open>EnvironmentError\<close>) catches.
\<close>

definition is_OSError :: "error \<Rightarrow> bool" where
  "is_OSError e = (e = OSError \<or> e = FileNotFoundError)"

subsection \<open>Python values\<close>

text \<open>
  A Python float is a finite real, an infinity or a NaN. The rounding of an exact result
  to a float is the host's \<open>fround\<close>, so nothing below depends on how IEEE 754 rounds.
\<close>

datatype pyfloat = Finite real | PosInf | NegInf | NaN

datatype pynum = PyInt int | PyFloat pyfloat

definition float_mul :: "(real \<Rightarrow> pyfloat) \<Rightarrow> real \<Rightarrow> pyfloat \<Rightarrow> pyfloat" where
  "float_mul rnd x g =
     (case g of
        Finite y \<Rightarrow> rnd (x * y)
      | PosInf \<Rightarrow> (if 0 < x then PosInf else if x < 0 then NegInf else NaN)
      | NegInf \<Rightarrow> (if 0 < x then NegInf else if x < 0 then PosInf else NaN)
      | NaN \<Rightarrow> NaN)"

definition py_mul_int_float :: "(real \<Rightarrow> pyfloat) \<Rightarrow> int \<Rightarrow> pyfloat \<Rightarrow> error + pyfloat" where
  \<comment> \<open>\<^verbatim>\<open>a * g\<close>: the int is converted to a float first, which raises when it is too large.\<close>
  "py_mul_int_float rnd a g =
     (case rnd (real_of_int a) of
        Finite x \<Rightarrow> Inr (float_mul rnd x g)
      | _ \<Rightarrow> Inl OverflowError)"

definition int_less_float :: "int \<Rightarrow> pyfloat \<Rightarrow> bool" where
  \<comment> \<open>\<^verbatim>\<open>v < x\<close> for an int and a float: Python compares the exact values.\<close>
  "int_less_float v x =
     (case x of Finite r \<Rightarrow> real_of_int v < r | PosInf \<Rightarrow> True | NegInf \<Rightarrow> False
      | NaN \<Rightarrow> False)"

definition py_min_float_int :: "pyfloat \<Rightarrow> int \<Rightarrow> pynum" where
  \<comment> \<open>\<^verbatim>\<open>min(x, v)\<close>: the first argument unless the second is smaller.\<close>
  "py_min_float_int x v = (if int_less_float v x then PyInt v else PyFloat x)"

definition py_trunc :: "real \<Rightarrow> int" where
  "py_trunc r = (if 0 \<le> r then \<lfloor>r\<rfloor> else \<lceil>r\<rceil>)"

definition py_int :: "pynum \<Rightarrow> error + int" where
  "py_int n =
     (case n of
        PyInt v \<Rightarrow> Inr v
      | PyFloat (Finite r) \<Rightarrow> Inr (py_trunc r)
      | PyFloat NaN \<Rightarrow> Inl ValueError
      | PyFloat _ \<Rightarrow> Inl OverflowError)"

definition startswith :: "'a list \<Rightarrow> 'a list \<Rightarrow> bool" where
  "startswith s p = (take (length p) s = p)"

definition endswith :: "'a list \<Rightarrow> 'a list \<Rightarrow> bool" where
  "endswith s p = (length p \<le> length s \<and> drop (length s - length p) s = p)"

subsection \<open>Configuration, files, the host\<close>

type_synonym path = string
type_synonym bytes = "8 word list"

text \<open>
  A \<open>path\<close> is the string of a \<^verbatim>\<open>pathlib.Path\<close> that names a file: its last component
  is not empty, so that \<^verbatim>\<open>p.with_suffix(p.suffix + s)\<close> is \<open>p @ s\<close>.
\<close>

datatype level = Warning | Error

datatype tool_outcome = Done bytes | NonZeroExit | CannotExecute

datatype convert_outcome = Converted bytes | ConvertFailed "bytes option"

datatype event =
    Log level string
  | Convert path path string string
  | Execute "string list"
  | ExtractIso path path
  | CopyFile path path
  | WriteFile path

record conf =
  permitted_image_formats :: "string list"
  disable_deep_image_inspection :: bool
  disable_zstandard_decompression :: bool
  raw_image_growth_factor :: pyfloat
  minimum_required_memory :: int
  grub_config_path :: string
  grub_config_template :: string

record world =
  files :: "path \<rightharpoonup> bytes"
  trace :: "event list"
  tempdirs :: nat

record image_format_info =
  fmt_name :: string
  virtual_size :: int
  actual_size :: int
  safety_check_passes :: bool

text \<open>
  \<open>fmt_name x\<close> is \<^verbatim>\<open>str(x)\<close> of an inspector of \<^verbatim>\<open>oslo_utils.imageutils.format_inspector\<close>,
  \<open>safety_check_passes x\<close> says that \<^verbatim>\<open>x.safety_check()\<close> returns instead of raising
  \<^verbatim>\<open>SafetyCheckFailed\<close>. The fields \<open>wrapper_*\<close> of the host are the
  \<^verbatim>\<open>InspectWrapper\<close> of that library, with its state of type \<open>'s\<close>:
  \<open>wrapper_eat\<close> is \<^verbatim>\<open>read\<close> on a window of the file, \<open>wrapper_formats\<close> is the
  property \<^verbatim>\<open>formats\<close> (the candidates, or \<^verbatim>\<open>None\<close>) and \<open>wrapper_format\<close> the
  property \<^verbatim>\<open>format\<close>, which returns the format, or \<^verbatim>\<open>None\<close>, or raises.
  The other fields are the rounding of floats, the memory that is available, the tools
  \<^verbatim>\<open>qemu-img\<close>, \<^verbatim>\<open>zstd\<close> and \<^verbatim>\<open>mkisofs\<close>, the walk of \<^verbatim>\<open>pycdlib\<close> over an ISO
  and the rendering of a template.
\<close>

record 's host =
  wrapper_init :: 's
  wrapper_eat :: "'s \<Rightarrow> bytes \<Rightarrow> 's"
  wrapper_close :: "'s \<Rightarrow> 's"
  wrapper_formats :: "'s \<Rightarrow> image_format_info list option"
  wrapper_format :: "'s \<Rightarrow> error + image_format_info option"
  fround :: "real \<Rightarrow> pyfloat"
  available_memory :: int
  qemu_img :: "string \<Rightarrow> string \<Rightarrow> bytes \<Rightarrow> convert_outcome"
  zstd :: "bytes \<Rightarrow> tool_outcome"
  iso_walk :: "bytes \<Rightarrow> (path \<times> bytes) list option"
  render_template :: "string \<Rightarrow> (string \<times> string) list \<Rightarrow> error + string"
  mkisofs :: "string list \<Rightarrow> (path \<rightharpoonup> bytes) \<Rightarrow> tool_outcome"

definition log_msg :: "level \<Rightarrow> string \<Rightarrow> world \<Rightarrow> world" where
  "log_msg l msg w = w\<lparr>trace := trace w @ [Log l msg]\<rparr>"

definition and_then ::
  "(world \<Rightarrow> (error + 'a) \<times> world) \<Rightarrow> ('a \<Rightarrow> world \<Rightarrow> (error + 'b) \<times> world)
     \<Rightarrow> world \<Rightarrow> (error + 'b) \<times> world" where
  \<comment> \<open>Sequencing of two statements: an exception of the first skips the second.\<close>
  "and_then m f w = (case m w of (Inl e, w') \<Rightarrow> (Inl e, w') | (Inr a, w') \<Rightarrow> f a w')"

subsection \<open>Format detection\<close>

definition truthy_formats :: "image_format_info list option \<Rightarrow> bool" where
  "truthy_formats fs = (case fs of None \<Rightarrow> False | Some l \<Rightarrow> l \<noteq> [])"

text \<open>
  The loop of \<open>detect_file_format\<close>: while the file has bytes left, hand the next
  window of 4096 bytes to the wrapper, and stop once it reports formats.
\<close>

function read_loop :: "'s host \<Rightarrow> 's \<Rightarrow> bytes \<Rightarrow> 's" where
  "read_loop h wrapper rest =
     (if rest = [] then wrapper
      else let wrapper' = wrapper_eat h wrapper (take 4096 rest) in
           if truthy_formats (wrapper_formats h wrapper') then wrapper'
           else read_loop h wrapper' (drop 4096 rest))"
  by pat_completeness auto
termination
  by (relation "measure (\<lambda>(h, wrapper, rest). length rest)") auto

declare read_loop.simps [simp del]

definition detect_file_format ::
  "'s host \<Rightarrow> (path \<rightharpoonup> bytes) \<Rightarrow> path \<Rightarrow> error + image_format_info option" where
  "detect_file_format h fs p =
     (case fs p of
        None \<Rightarrow> Inl FileNotFoundError
      | Some content \<Rightarrow>
          let wrapper = wrapper_close h (read_loop h (wrapper_init h) content) in
          (case wrapper_format h wrapper of
             Inr r \<Rightarrow> Inr r
           | Inl e \<Rightarrow>
               if e = ImageFormatError then
                 (case wrapper_formats h wrapper of
                    None \<Rightarrow> Inl TypeError
                  | Some formats \<Rightarrow>
                      let format_names = set (map fmt_name formats) in
                      if format_names = {''iso'', ''gpt''} then
                        (case filter (\<lambda>x. fmt_name x = ''iso'') formats of
                           [] \<Rightarrow> Inl IndexError
                         | x # _ \<Rightarrow> Inr (Some x))
                      else Inl ImageFormatError)
               else Inl e))"

definition converted_size ::
  "'s host \<Rightarrow> conf \<Rightarrow> (path \<rightharpoonup> bytes) \<Rightarrow> path \<Rightarrow> bool \<Rightarrow> error + int" where
  "converted_size h cfg fs p estimate =
     (case detect_file_format h fs p of
        Inl e \<Rightarrow> Inl e
      | Inr None \<Rightarrow> Inl AttributeError
      | Inr (Some data) \<Rightarrow>
          if \<not> estimate then Inr (virtual_size data)
          else let growth_factor = raw_image_growth_factor cfg in
               (case py_mul_int_float (fround h) (actual_size data) growth_factor of
                  Inl e \<Rightarrow> Inl e
                | Inr x \<Rightarrow> py_int (py_min_float_int x (virtual_size data))))"

subsection \<open>Is the image source a path?\<close>

text \<open>
  The object that \<^verbatim>\<open>validate_href\<close> of an image service returns. It may have no
  attribute \<^verbatim>\<open>headers\<close> (then \<^verbatim>\<open>getattr\<close> gives the empty dict) and no attribute
  \<^verbatim>\<open>url\<close> (then \<^verbatim>\<open>res.url\<close>, which is outside the \<^verbatim>\<open>try\<close>, raises
  \<^verbatim>\<open>AttributeError\<close>): the path string that the file service returns has neither.
  An image service is given by its \<^verbatim>\<open>validate_href\<close>;
  \<^verbatim>\<open>service.get_image_service\<close> is the parameter \<open>get_image_service\<close>.
\<close>

record response =
  headers :: "(string \<rightharpoonup> string) option"
  url :: "string option"

type_synonym image_service = "string \<Rightarrow> error + response"

definition is_source_a_path ::
  "(string \<Rightarrow> error + image_service) \<Rightarrow> string option \<Rightarrow> error + bool option" where
  "is_source_a_path get_image_service image_source =
     (if image_source = None \<or> image_source = Some [] then Inr None
      else
        (case get_image_service (the image_source) of
           Inl e \<Rightarrow> Inl e
         | Inr image_service \<Rightarrow>
             (case image_service (the image_source) of
                Inl e \<Rightarrow> Inr None
              | Inr res \<Rightarrow>
                  let hdrs = (case headers res of None \<Rightarrow> Map.empty | Some d \<Rightarrow> d) in
                  if ''Content-Type'' \<in> dom hdrs
                     \<and> startswith (the (hdrs ''Content-Type'')) ''text/html'' then
                    Inr (Some True)
                  else if ''Content-Type'' \<in> dom hdrs
                     \<and> the (hdrs ''Content-Type'') \<noteq> ''text/html''
                     \<and> ''Content-Length'' \<in> dom hdrs then
                    Inr (Some False)
                  else
                    (case url res of
                       None \<Rightarrow> Inl AttributeError
                     | Some u \<Rightarrow>
                         if endswith u ''/'' then Inr (Some True)
                         else Inr (Some False)))))"

text \<open>
  The answer that the specification gives for a response of the probe, in its own
  order: \<^verbatim>\<open>text/html\<close> without a length is a listing, another content type with a
  length is a file, a URL that ends with a slash is a listing, anything else is not.
\<close>

definition is_path_source_as_specified :: "error + response \<Rightarrow> bool option" where
  "is_path_source_as_specified probe =
     (case probe of
        Inl e \<Rightarrow> None
      | Inr res \<Rightarrow>
          let hdrs = (case headers res of None \<Rightarrow> Map.empty | Some d \<Rightarrow> d);
              html = (''Content-Type'' \<in> dom hdrs
                      \<and> startswith (the (hdrs ''Content-Type'')) ''text/html'')
          in if html \<and> ''Content-Length'' \<notin> dom hdrs then Some True
             else if ''Content-Type'' \<in> dom hdrs \<and> \<not> html
                     \<and> ''Content-Length'' \<in> dom hdrs then Some False
             else if (case url res of None \<Rightarrow> False | Some u \<Rightarrow> endswith u ''/'')
               then Some True
             else Some False)"

subsection \<open>Permitted formats\<close>

record node =
  uuid :: string

definition node_or_image_cache :: "node option \<Rightarrow> string" where
  "node_or_image_cache n = (case n of None \<Rightarrow> ''image cache'' | Some nd \<Rightarrow> uuid nd)"

definition RAW_IMAGE_FORMATS :: "string set" where
  "RAW_IMAGE_FORMATS = {''raw'', ''gpt''}"

definition image_format_permitted :: "conf \<Rightarrow> string \<Rightarrow> bool" where
  "image_format_permitted cfg img_format =
     (let permitted = set (permitted_image_formats cfg);
          permitted = (if ''raw'' \<in> permitted then permitted \<union> RAW_IMAGE_FORMATS
                       else permitted)
      in img_format \<in> permitted)"

definition image_format_matches :: "string \<Rightarrow> string \<Rightarrow> bool" where
  "image_format_matches actual_format expected_format =
     (if expected_format \<in> set [''ari'', ''aki''] then True
      else if expected_format = ''raw'' \<and> actual_format \<in> RAW_IMAGE_FORMATS then True
      else expected_format = actual_format)"

definition check_if_image_format_is_permitted ::
  "conf \<Rightarrow> string \<Rightarrow> string option \<Rightarrow> node option \<Rightarrow> world \<Rightarrow> (error + unit) \<times> world" where
  "check_if_image_format_is_permitted cfg img_format expected_format nd w =
     (let id_string = node_or_image_cache nd in
      if \<not> image_format_permitted cfg img_format then
        (Inl InvalidImage,
         log_msg Error (''Security: The requested deploy image for node '' @ id_string @
                    '' is of format image '' @ img_format @
                    '' and is not in the [conductor]permitted_image_formats list.'') w)
      else if expected_format \<noteq> None
              \<and> \<not> image_format_matches img_format (the expected_format) then
        (Inl InvalidImage,
         log_msg Error (''Security: The requested deploy image for node '' @ id_string @
                    '' has a format ('' @ img_format @
                    '') which does not match the expected image format ('' @
                    the expected_format @
                    '') based upon supplied or retrieved information.'') w)
      else (Inr (), w))"

subsection \<open>Files and external tools\<close>

text \<open>
  The file system is a map from paths to the contents of regular files; directories are
  not represented, the parents of a file exist.
  \<^verbatim>\<open>Path.rename\<close> and \<^verbatim>\<open>shutil.move\<close> replace the target, \<^verbatim>\<open>Path.unlink\<close> raises
  for a missing file, \<^verbatim>\<open>fileutils.delete_if_exists\<close> does not.
  \<^verbatim>\<open>fileutils.remove_path_on_error\<close> runs its body and, when the body raises, deletes
  the path and raises the same exception again.
\<close>

definition path_rename :: "path \<Rightarrow> path \<Rightarrow> world \<Rightarrow> (error + unit) \<times> world" where
  "path_rename src dst w =
     (case files w src of
        None \<Rightarrow> (Inl FileNotFoundError, w)
      | Some content \<Rightarrow> (Inr (), w\<lparr>files := ((files w)(src := None))(dst \<mapsto> content)\<rparr>))"

definition shutil_move :: "path \<Rightarrow> path \<Rightarrow> world \<Rightarrow> (error + unit) \<times> world" where
  "shutil_move src dst w = path_rename src dst w"

definition path_unlink :: "path \<Rightarrow> world \<Rightarrow> (error + unit) \<times> world" where
  "path_unlink p w =
     (case files w p of
        None \<Rightarrow> (Inl FileNotFoundError, w)
      | Some content \<Rightarrow> (Inr (), w\<lparr>files := (files w)(p := None)\<rparr>))"

definition delete_if_exists :: "path \<Rightarrow> world \<Rightarrow> world" where
  "delete_if_exists p w = w\<lparr>files := (files w)(p := None)\<rparr>"

definition remove_path_on_error ::
  "path \<Rightarrow> (world \<Rightarrow> (error + 'a) \<times> world) \<Rightarrow> world \<Rightarrow> (error + 'a) \<times> world" where
  "remove_path_on_error p body w =
     (case body w of
        (Inl e, w') \<Rightarrow> (Inl e, delete_if_exists p w')
      | (Inr a, w') \<Rightarrow> (Inr a, w'))"

definition spawned :: "world \<Rightarrow> event list" where
  \<comment> \<open>The invocations of external tools so far, without the log lines.\<close>
  "spawned w = filter (\<lambda>e. case e of Log l msg \<Rightarrow> False | _ \<Rightarrow> True) (trace w)"

definition convert_image ::
  "'s host \<Rightarrow> path \<Rightarrow> path \<Rightarrow> string \<Rightarrow> string \<Rightarrow> world \<Rightarrow> (error + unit) \<times> world" where
  \<comment> \<open>Modelled from the spec: \<^verbatim>\<open>qemu_img.convert_image\<close> of \<^verbatim>\<open>ironic/common/qemu_img.py\<close>,
      the external raw-conversion utility, "invoked as convert(srcPath, dstPath,
      targetFormat, sourceFormat) -> exit status; non-zero exit or malformed output is a
      hard failure". A failed run may leave a partial file at the destination.\<close>
  "convert_image h source dest out_format source_format w =
     (let w1 = w\<lparr>trace := trace w @ [Convert source dest out_format source_format]\<rparr> in
      case files w1 source of
        None \<Rightarrow> (Inl ProcessExecutionError, w1)
      | Some content \<Rightarrow>
          (case qemu_img h out_format source_format content of
             Converted out \<Rightarrow> (Inr (), w1\<lparr>files := (files w1)(dest \<mapsto> out)\<rparr>)
           | ConvertFailed None \<Rightarrow> (Inl ProcessExecutionError, w1)
           | ConvertFailed (Some part) \<Rightarrow>
               (Inl ProcessExecutionError, w1\<lparr>files := (files w1)(dest \<mapsto> part)\<rparr>)))"

definition is_memory_insufficient :: "'s host \<Rightarrow> conf \<Rightarrow> bool \<Rightarrow> error + bool" where
  \<comment> \<open>Modelled from the spec: \<^verbatim>\<open>utils.is_memory_insufficient\<close> of \<^verbatim>\<open>ironic/common/utils.py\<close>:
      "check available working memory meets a minimum threshold, failing fast with
      ImageConvertFailed rather than risking an out-of-memory mid-conversion".\<close>
  "is_memory_insufficient h cfg raise_if_fail =
     (if available_memory h < minimum_required_memory cfg then
        (if raise_if_fail then Inl ImageConvertFailed else Inr True)
      else Inr False)"

definition execute_zstd :: "'s host \<Rightarrow> path \<Rightarrow> world \<Rightarrow> (error + unit) \<times> world" where
  \<comment> \<open>Modelled from the spec: \<^verbatim>\<open>utils.execute('zstd', '-d', '--rm', temp_path)\<close> of
      \<^verbatim>\<open>ironic/common/utils.py\<close>, the external decompressor, which "operates in place,
      removing its compressed-source argument on success"; "a non-zero exit is translated
      immediately into a typed failure", the \<^verbatim>\<open>ProcessExecutionError\<close> that the module
      catches around its other calls of \<^verbatim>\<open>utils.execute\<close>; a tool that cannot be started
      is an \<^verbatim>\<open>OSError\<close>. The output goes to the path without the suffix \<^verbatim>\<open>.zstd\<close>.\<close>
  "execute_zstd h temp_path w =
     (let w1 = w\<lparr>trace := trace w @ [Execute [''zstd'', ''-d'', ''--rm'', temp_path]]\<rparr> in
      case files w1 temp_path of
        None \<Rightarrow> (Inl ProcessExecutionError, w1)
      | Some content \<Rightarrow>
          (case zstd h content of
             CannotExecute \<Rightarrow> (Inl FileNotFoundError, w1)
           | NonZeroExit \<Rightarrow> (Inl ProcessExecutionError, w1)
           | Done out \<Rightarrow>
               if endswith temp_path ''.zstd'' then
                 (Inr (), w1\<lparr>files := ((files w1)(temp_path := None))
                                  (take (length temp_path - 5) temp_path \<mapsto> out)\<rparr>)
               else (Inl ProcessExecutionError, w1)))"

subsection \<open>Decompression of zstd-wrapped downloads\<close>

definition handle_zstd_compression ::
  "'s host \<Rightarrow> conf \<Rightarrow> path \<Rightarrow> world \<Rightarrow> (error + unit) \<times> world" where
  "handle_zstd_compression h cfg p w =
     (case files w p of
        None \<Rightarrow> (Inl FileNotFoundError, w)
      | Some content \<Rightarrow>
          let read = take 4 content;
              zstd_comp = startswith read [0x28, 0xB5, 0x2F, 0xFD]
          in if zstd_comp \<and> \<not> disable_zstandard_decompression cfg then
               let temp_path = p @ ''.zstd'' in
               and_then (shutil_move p temp_path)
                 (\<lambda>_ w1.
                    case execute_zstd h temp_path w1 of
                      (Inr u, w2) \<Rightarrow> (Inr (), w2)
                    | (Inl e, w2) \<Rightarrow>
                        if is_OSError e then
                          shutil_move temp_path p
                            (log_msg Error ''Failed to decompress a zstd compressed file'' w2)
                        else (Inl e, w2)) w
             else (Inr (), w))"

subsection \<open>Safety check and conversion to raw\<close>

definition get_source_format ::
  "'s host \<Rightarrow> string \<Rightarrow> path \<Rightarrow> world \<Rightarrow> (error + string) \<times> world" where
  "get_source_format h image_href p w =
     (case detect_file_format h (files w) p of
        Inl e \<Rightarrow>
          if e = ImageFormatError then
            (Inl ImageUnacceptable,
             log_msg Error (''Parsing of the image '' @ image_href @ '' failed'') w)
          else (Inl e, w)
      | Inr None \<Rightarrow>
          (Inl ImageUnacceptable,
           log_msg Error (''Parsing of the image '' @ image_href @
                      '' failed: format not recognized'') w)
      | Inr (Some img_format) \<Rightarrow> (Inr (fmt_name img_format), w))"

definition safety_check_image ::
  "'s host \<Rightarrow> path \<Rightarrow> node option \<Rightarrow> world \<Rightarrow> (error + string) \<times> world" where
  "safety_check_image h image_path nd w =
     (let id_string = node_or_image_cache nd in
      case detect_file_format h (files w) image_path of
        Inl e \<Rightarrow>
          if e = ImageFormatError then
            (Inl InvalidImage,
             log_msg Error (''Security: The requested user image for the deployment node '' @
                        id_string @
                        '' failed to be able to be parsed by the image format checker'') w)
          else if e = SafetyCheckFailed then
            (Inl InvalidImage,
             log_msg Error (''Security: The requested image for deployment of node '' @
                        id_string @ '' fails safety sanity checking'') w)
          else (Inl e, w)
      | Inr None \<Rightarrow>
          (Inl InvalidImage,
           log_msg Error (''Security: The requested user image for the deployment node '' @
                      id_string @ '' does not match any known format'') w)
      | Inr (Some img_class) \<Rightarrow>
          if \<not> safety_check_passes img_class then
            (Inl InvalidImage,
             log_msg Error (''Security: The requested image for deployment of node '' @
                        id_string @ '' fails safety sanity checking'') w)
          else (Inr (fmt_name img_class), w))"

text \<open>
  \<open>image_to_raw\<close> in two parts: \<open>image_to_raw_inspect\<close> is its first
  \<^verbatim>\<open>if\<close> statement, which determines \<^verbatim>\<open>fmt\<close>; \<open>image_to_raw\<close> is the whole
  function, \<open>p\<close> being the final path and \<open>path_tmp\<close> the staging path.
\<close>

definition image_to_raw_inspect ::
  "'s host \<Rightarrow> conf \<Rightarrow> string \<Rightarrow> path \<Rightarrow> path \<Rightarrow> world \<Rightarrow> (error + string) \<times> world" where
  "image_to_raw_inspect h cfg image_href p path_tmp w =
     (if \<not> disable_deep_image_inspection cfg then
        and_then (safety_check_image h path_tmp None)
          (\<lambda>fmt w1.
             if \<not> image_format_permitted cfg fmt then
               (Inl InvalidImage,
                log_msg Error (''Security: The requested image '' @ image_href @
                           '' is of format image '' @ fmt @
                           '' and is not in the [conductor]permitted_image_formats list.'')
                  w1)
             else (Inr fmt, w1)) w
      else
        and_then (get_source_format h image_href p)
          (\<lambda>fmt w1.
             (Inr fmt,
              log_msg Warning (''Security: Image safety checking has been disabled. '' @
                           ''This is unsafe operation. Attempting to continue '' @
                           ''the detected format '' @ fmt @ '' for '' @ p @ ''.'') w1)) w)"

definition image_to_raw ::
  "'s host \<Rightarrow> conf \<Rightarrow> string \<Rightarrow> path \<Rightarrow> path \<Rightarrow> world \<Rightarrow> (error + unit) \<times> world" where
  "image_to_raw h cfg image_href p path_tmp w =
     remove_path_on_error path_tmp
       (and_then (image_to_raw_inspect h cfg image_href p path_tmp)
          (\<lambda>fmt w1.
             if fmt \<notin> RAW_IMAGE_FORMATS \<and> fmt \<noteq> ''iso'' then
               let staged = p @ ''.converted'' in
               (case is_memory_insufficient h cfg True of
                  Inl e \<Rightarrow> (Inl e, w1)
                | Inr _ \<Rightarrow>
                    remove_path_on_error staged
                      (and_then (convert_image h path_tmp staged ''raw'' fmt)
                         (\<lambda>_. and_then (path_unlink path_tmp)
                            (\<lambda>_. and_then (get_source_format h image_href staged)
                               (\<lambda>new_fmt w4.
                                  if new_fmt \<notin> RAW_IMAGE_FORMATS then
                                    (Inl ImageConvertFailed, w4)
                                  else path_rename staged p w4)))) w1)
             else path_rename path_tmp p w1)) w"

subsection \<open>Building the UEFI boot ISO\<close>

text \<open>
  A key of the dict \<^verbatim>\<open>files_info\<close> is a path or the content of a file as bytes. The
  dict is a list of pairs in the order of insertion: \<open>dict_set\<close> is \<^verbatim>\<open>d[k] = v\<close>
  and \<open>dict_update\<close> is \<^verbatim>\<open>d.update(other)\<close>.
\<close>

datatype source = PathSource path | BytesSource bytes

fun dict_set :: "('k \<times> 'v) list \<Rightarrow> 'k \<Rightarrow> 'v \<Rightarrow> ('k \<times> 'v) list" where
  "dict_set [] k v = [(k, v)]"
| "dict_set ((k', v') # d) k v =
     (if k' = k then (k, v) # d else (k', v') # dict_set d k v)"

definition dict_update :: "('k \<times> 'v) list \<Rightarrow> ('k \<times> 'v) list \<Rightarrow> ('k \<times> 'v) list" where
  "dict_update d other = foldl (\<lambda>acc (k, v). dict_set acc k v) d other"

definition truthy :: "string option \<Rightarrow> bool" where
  \<comment> \<open>The truth value of an optional string: \<^verbatim>\<open>None\<close> and \<^verbatim>\<open>''\<close> are false.\<close>
  "truthy x = (case x of None \<Rightarrow> False | Some s \<Rightarrow> s \<noteq> [])"

definition path_join :: "path \<Rightarrow> string \<Rightarrow> path" where
  \<comment> \<open>\<^verbatim>\<open>Path(a) / b\<close>: an absolute \<open>b\<close> replaces \<open>a\<close>.\<close>
  "path_join a b =
     (if b = [] then a else if hd b = CHR ''/'' then b else a @ ''/'' @ b)"

definition path_name :: "path \<Rightarrow> string" where
  "path_name p = rev (takeWhile (\<lambda>c. c \<noteq> CHR ''/'') (rev p))"

definition encode :: "string \<Rightarrow> bytes" where
  "encode s = map of_char s"

definition rmtree :: "path \<Rightarrow> world \<Rightarrow> world" where
  "rmtree d w =
     w\<lparr>files := (\<lambda>p. if startswith p (d @ ''/'') then None else files w p)\<rparr>"

definition tempdir_name :: "nat \<Rightarrow> path" where
  "tempdir_name n = ''/tmp/tmp'' @ replicate (Suc n) CHR ''x''"

definition tempdir ::
  "(path \<Rightarrow> world \<Rightarrow> (error + 'a) \<times> world) \<Rightarrow> world \<Rightarrow> (error + 'a) \<times> world" where
  \<comment> \<open>Modelled from the spec: the context manager \<^verbatim>\<open>utils.tempdir\<close> of
      \<^verbatim>\<open>ironic/common/utils.py\<close>: "every invocation allocates its own uniquely-named
      temporary working directory"; "the directory and everything under it is removed when
      the owning call returns, on both success and failure paths".\<close>
  \<comment> \<open>The new directory is empty: nothing is under its name when the body starts.\<close>
  "tempdir body w =
     (let d = tempdir_name (tempdirs w);
          w1 = rmtree d (w\<lparr>tempdirs := Suc (tempdirs w)\<rparr>)
      in case body d w1 of (r, w2) \<Rightarrow> (r, rmtree d w2))"

definition read_source :: "world \<Rightarrow> path \<Rightarrow> bytes option" where
  \<comment> \<open>Reading \<^verbatim>\<open>/dev/null\<close> gives the empty content.\<close>
  "read_source w p = (if p = ''/dev/null'' then Some [] else files w p)"

fun create_root_fs ::
  "path \<Rightarrow> (source \<times> string) list \<Rightarrow> world \<Rightarrow> (error + unit) \<times> world" where
  "create_root_fs root_directory [] w = (Inr (), w)"
| "create_root_fs root_directory ((src_file, rel) # files_info) w =
     (let target_file = path_join root_directory rel in
      case src_file of
        BytesSource content \<Rightarrow>
          create_root_fs root_directory files_info
            (w\<lparr>files := (files w)(target_file \<mapsto> content),
               trace := trace w @ [WriteFile target_file]\<rparr>)
      | PathSource src \<Rightarrow>
          (case read_source w src of
             None \<Rightarrow> (Inl FileNotFoundError, w)
           | Some content \<Rightarrow>
               if src = target_file then (Inl OSError, w)
               else create_root_fs root_directory files_info
                      (w\<lparr>files := (files w)(target_file \<mapsto> content),
                         trace := trace w @ [CopyFile src target_file]\<rparr>)))"

definition generate_cfg ::
  "'s host \<Rightarrow> string list option \<Rightarrow> string \<Rightarrow> (string \<times> string) list \<Rightarrow> error + string"
  where
  "generate_cfg h kernel_params template options =
     (let params = (case kernel_params of None \<Rightarrow> [] | Some l \<Rightarrow> l);
          joined = (case params of [] \<Rightarrow> []
                    | x # xs \<Rightarrow> foldl (\<lambda>acc s. acc @ '' '' @ s) x xs)
      in render_template h template (dict_set options ''kernel_params'' joined))"

definition label :: "(source \<times> string) list \<Rightarrow> string" where
  "label files_info =
     (if \<exists>x \<in> set (map snd files_info). startswith x ''openstack/'' then ''config-2''
      else ''VMEDIA_BOOT_ISO'')"

definition extract_iso :: "'s host \<Rightarrow> path \<Rightarrow> path \<Rightarrow> world \<Rightarrow> (error + unit) \<times> world" where
  \<comment> \<open>The walk of \<^verbatim>\<open>pycdlib\<close> over the ISO is the host's \<open>iso_walk\<close>: the files of the
      ISO with their paths relative to its root, or nothing when it cannot be opened.\<close>
  "extract_iso h iso_file extract_dir w =
     (let w1 = w\<lparr>trace := trace w @ [ExtractIso iso_file extract_dir]\<rparr> in
      case files w1 iso_file of
        None \<Rightarrow> (Inl FileNotFoundError, w1)
      | Some content \<Rightarrow>
          (case iso_walk h content of
             None \<Rightarrow> (Inl ValueError, w1)
           | Some entries \<Rightarrow>
               (Inr (),
                w1\<lparr>files := foldl (\<lambda>fs (rel, c). fs(path_join extract_dir rel \<mapsto> c))
                                (files w1) entries\<rparr>)))"

text \<open>
  The walk over the freshly extracted directory visits the extracted files; the last
  file of each name wins, as in the loop of the source.
\<close>

definition get_deploy_iso_files ::
  "'s host \<Rightarrow> path \<Rightarrow> path \<Rightarrow> world
     \<Rightarrow> (error + (source \<times> string) list \<times> string \<times> string) \<times> world" where
  "get_deploy_iso_files h deploy_iso mountdir w =
     (case extract_iso h deploy_iso mountdir w of
        (Inl e, w1) \<Rightarrow>
          (Inl ImageCreationFailed, log_msg Error ''extracting the deploy iso failed.'' w1)
      | (Inr u, w1) \<Rightarrow>
          let found = (case files w1 deploy_iso of
                         None \<Rightarrow> []
                       | Some content \<Rightarrow>
                           (case iso_walk h content of None \<Rightarrow> [] | Some l \<Rightarrow> map fst l));
              e_img_rel_path = foldl (\<lambda>acc rel. if path_name rel = ''efiboot.img''
                                                 then Some rel else acc) None found;
              grub_rel_path = foldl (\<lambda>acc rel. if path_name rel = ''grub.cfg''
                                                then Some rel else acc) None found
          in if \<not> (truthy e_img_rel_path \<and> truthy grub_rel_path) then
               (Inl ImageCreationFailed, rmtree mountdir w1)
             else
               (Inr ([(PathSource (path_join mountdir (the e_img_rel_path)),
                       the e_img_rel_path),
                      (PathSource (path_join mountdir (the grub_rel_path)),
                       the grub_rel_path)],
                     the e_img_rel_path, the grub_rel_path), w1))"

definition write_to_file :: "path \<Rightarrow> string \<Rightarrow> world \<Rightarrow> world" where
  \<comment> \<open>Modelled from the spec: \<^verbatim>\<open>utils.write_to_file\<close> of \<^verbatim>\<open>ironic/common/utils.py\<close>,
      by which the generated configuration is "written over whatever was extracted".\<close>
  "write_to_file p contents w =
     w\<lparr>files := (files w)(p \<mapsto> encode contents), trace := trace w @ [WriteFile p]\<rparr>"

definition execute_mkisofs ::
  "'s host \<Rightarrow> string list \<Rightarrow> path \<Rightarrow> world \<Rightarrow> (error + unit) \<times> world" where
  \<comment> \<open>Modelled from the spec: \<^verbatim>\<open>utils.execute\<close> of \<^verbatim>\<open>ironic/common/utils.py\<close> with the
      external ISO mastering tool, which "writes the final ISO to the given output path";
      "a non-zero exit is translated immediately into a typed failure".\<close>
  "execute_mkisofs h args output_file w =
     (let w1 = w\<lparr>trace := trace w @ [Execute args]\<rparr> in
      case mkisofs h args (files w1) of
        CannotExecute \<Rightarrow> (Inl FileNotFoundError, w1)
      | NonZeroExit \<Rightarrow> (Inl ProcessExecutionError, w1)
      | Done out \<Rightarrow> (Inr (), w1\<lparr>files := (files w1)(output_file \<mapsto> out)\<rparr>))"

definition create_esp_image_for_uefi ::
  "'s host \<Rightarrow> conf \<Rightarrow> path \<Rightarrow> path \<Rightarrow> path \<Rightarrow> string option \<Rightarrow> string option
     \<Rightarrow> string list option \<Rightarrow> (source \<times> string) list option \<Rightarrow> string option
     \<Rightarrow> world \<Rightarrow> (error + unit) \<times> world" where
  "create_esp_image_for_uefi h cfg output_file kernel_file ramdisk_file deploy_iso esp_image
       kernel_params inject_files publisher_id w =
     (let EFIBOOT_LOCATION = ''boot/grub/efiboot.img'';
          grub_options = [(''linux'', ''/vmlinuz''), (''initrd'', ''/initrd'')]
      in tempdir
        (\<lambda>tmpdir.
           let files_info = dict_set [(PathSource kernel_file, ''vmlinuz'')]
                              (PathSource ramdisk_file) ''initrd'';
               files_info = (case inject_files of
                               None \<Rightarrow> files_info
                             | Some d \<Rightarrow> dict_update files_info d)
           in and_then
                (tempdir
                   (\<lambda>mountdir.
                      and_then
                        (if truthy deploy_iso \<and> \<not> truthy esp_image then
                           and_then (get_deploy_iso_files h (the deploy_iso) mountdir)
                             (\<lambda>(uefi_path_info, e_img_rel_path, grub_rel_path) w1.
                                (Inr (uefi_path_info, e_img_rel_path,
                                      path_join tmpdir grub_rel_path), w1))
                         else if truthy esp_image \<and> \<not> truthy deploy_iso then
                           (\<lambda>w1.
                              let e_img_rel_path = EFIBOOT_LOCATION;
                                  grub_rel_path =
                                    dropWhile (\<lambda>c. c \<in> set '' /'') (grub_config_path cfg)
                              in (Inr ([(PathSource (the esp_image), e_img_rel_path),
                                        (PathSource ''/dev/null'', grub_rel_path)],
                                       e_img_rel_path, path_join tmpdir grub_rel_path), w1))
                         else (\<lambda>w1. (Inl ImageCreationFailed, w1)))
                        (\<lambda>(uefi_path_info, e_img_rel_path, grub_cfg) w1.
                           let files_info = dict_update files_info uefi_path_info;
                               finally_block =
                                 (\<lambda>w. if truthy deploy_iso then rmtree mountdir w else w)
                           in case create_root_fs tmpdir files_info w1 of
                                (Inl e, w2) \<Rightarrow>
                                  if is_OSError e then
                                    (Inl ImageCreationFailed,
                                     finally_block (log_msg Error
                                       ''Creating the filesystem root failed.'' w2))
                                  else (Inl e, finally_block w2)
                              | (Inr u, w2) \<Rightarrow>
                                  (Inr (files_info, e_img_rel_path, grub_cfg),
                                   finally_block w2))))
                (\<lambda>(files_info, e_img_rel_path, grub_cfg) w3.
                   case generate_cfg h kernel_params (grub_config_template cfg)
                          grub_options of
                     Inl e \<Rightarrow> (Inl e, w3)
                   | Inr grub_conf \<Rightarrow>
                       let w4 = write_to_file grub_cfg grub_conf w3;
                           args = (if truthy publisher_id then
                                     [''mkisofs'', ''-r'', ''-V'', label files_info, ''-l'',
                                      ''-publisher'', the publisher_id, ''-e'',
                                      e_img_rel_path, ''-no-emul-boot'', ''-o'',
                                      output_file, tmpdir]
                                   else
                                     [''mkisofs'', ''-r'', ''-V'', label files_info, ''-l'',
                                      ''-e'', e_img_rel_path, ''-no-emul-boot'', ''-o'',
                                      output_file, tmpdir])
                       in case execute_mkisofs h args output_file w4 of
                            (Inl e, w5) \<Rightarrow>
                              if e = ProcessExecutionError then
                                (Inl ImageCreationFailed,
                                 log_msg Error ''Creating ISO image failed.'' w5)
                              else (Inl e, w5)
                          | (Inr u, w5) \<Rightarrow> (Inr (), w5))) w)"

subsection \<open>A small host and configuration, for the examples\<close>

text \<open>
  The example inspector looks at the first byte only: \<open>0x51\<close> is a qcow2 image,
  \<open>0x43\<close> matches both the ISO and the GPT inspector, \<open>0x45\<close> is a GPT disk,
  \<open>0x4B\<close> matches both the VMDK and the qcow2 inspector, anything else is raw.
  The example converter puts a GPT byte in front of its input, except that it returns a
  two-byte input ending in zero unchanged. The example decompressor drops the four bytes
  of the magic number and fails when nothing follows them. The example floats are the
  multiples of a quarter, and the rounding is to the nearest of them.
\<close>

definition example_info :: "string \<Rightarrow> bytes \<Rightarrow> image_format_info" where
  "example_info n s =
     \<lparr>fmt_name = n, virtual_size = 4 * int (length s), actual_size = int (length s),
      safety_check_passes = True\<rparr>"

definition example_candidates :: "bytes \<Rightarrow> image_format_info list" where
  "example_candidates s =
     (case s of
        [] \<Rightarrow> [example_info ''raw'' s]
      | b # _ \<Rightarrow>
          if b = 0x51 then [example_info ''qcow2'' s]
          else if b = 0x43 then [example_info ''gpt'' s, example_info ''iso'' s]
          else if b = 0x45 then [example_info ''gpt'' s]
          else if b = 0x4B then [example_info ''vmdk'' s, example_info ''qcow2'' s]
          else [example_info ''raw'' s])"

definition example_format :: "bytes \<Rightarrow> error + image_format_info option" where
  "example_format s =
     (case example_candidates s of
        [] \<Rightarrow> Inr None
      | [x] \<Rightarrow> Inr (Some x)
      | _ \<Rightarrow> Inl ImageFormatError)"

definition example_host :: "bytes host" where
  "example_host =
     \<lparr>wrapper_init = [],
      wrapper_eat = (\<lambda>s chunk. s @ chunk),
      wrapper_close = (\<lambda>s. s),
      wrapper_formats = (\<lambda>s. if s = [] then None else Some (example_candidates s)),
      wrapper_format = example_format,
      fround = (\<lambda>r. Finite (real_of_int (round (4 * r)) / 4)),
      available_memory = 4096,
      qemu_img = (\<lambda>out_format source_format content.
                    if drop 1 content = [0x00] then Converted content
                    else Converted (0x45 # content)),
      zstd = (\<lambda>content. if drop 4 content = [] then NonZeroExit
                         else Done (drop 4 content)),
      iso_walk = (\<lambda>content. Some [(''boot/grub/efiboot.img'', [0xEB]),
                                     (''boot/grub/grub.cfg'', [0x23])]),
      render_template = (\<lambda>template options.
                           Inr (concat (map (\<lambda>(k, v). k @ ''='' @ v @ ''; '') options))),
      mkisofs = (\<lambda>args fs. Done [0x43, 0x44])\<rparr>"

definition example_conf :: conf where
  "example_conf =
     \<lparr>permitted_image_formats = [''raw'', ''qcow2''],
      disable_deep_image_inspection = False,
      disable_zstandard_decompression = False,
      raw_image_growth_factor = Finite 2,
      minimum_required_memory = 1024,
      grub_config_path = ''/EFI/BOOT/grub.cfg'',
      grub_config_template = ''grub.template''\<rparr>"

definition example_world :: world where
  "example_world =
     \<lparr>files = [''/cache/image.part'' \<mapsto> [0x43, 0x44, 0x30, 0x30, 0x31],
               ''/cache/disk.part'' \<mapsto> [0x51, 0x46, 0x49, 0xFB],
               ''/cache/odd.part'' \<mapsto> [0x4B, 0x44, 0x4D, 0x56],
               ''/cache/broken.part'' \<mapsto> [0x51, 0x00],
               ''/cache/broken'' \<mapsto> [0x01],
               ''/cache/plain.part'' \<mapsto> [0x00, 0x01],
               ''/cache/bad.img'' \<mapsto> [0x28, 0xB5, 0x2F, 0xFD],
               ''/srv/vmlinuz'' \<mapsto> [0x4D, 0x5A],
               ''/srv/initrd'' \<mapsto> [0x1F, 0x8B],
               ''/srv/deploy.iso'' \<mapsto> [0x43, 0x44],
               ''/srv/esp.img'' \<mapsto> [0xEB, 0x3C]],
      trace = [],
      tempdirs = 0\<rparr>"

definition example_conf_insecure :: conf where
  "example_conf_insecure = example_conf\<lparr>disable_deep_image_inspection := True\<rparr>"

definition example_conf_strict :: conf where
  "example_conf_strict = example_conf\<lparr>minimum_required_memory := 8192\<rparr>"

definition example_conf_growth :: conf where
  "example_conf_growth = example_conf\<lparr>raw_image_growth_factor := Finite (79 / 40)\<rparr>"

definition example_conf_iso :: conf where
  "example_conf_iso = example_conf\<lparr>permitted_image_formats := [''raw'', ''iso'']\<rparr>"

text \<open>
  The example image service answers \<^verbatim>\<open>http://host/images\<close> with an HTML page that
  has a length, redirects \<^verbatim>\<open>http://host/dir\<close> to a URL that ends with a slash and
  sends no headers for it, answers \<^verbatim>\<open>http://host/disk.img\<close> with a binary file,
  cannot reach \<^verbatim>\<open>http://down/disk.img\<close>, and returns for every other reference an
  object without headers and without a URL, as the file service does.
\<close>

definition example_response :: response where
  "example_response =
     \<lparr>headers = Some [''Content-Type'' \<mapsto> ''text/html'', ''Content-Length'' \<mapsto> ''512''],
      url = Some ''http://host/images''\<rparr>"

definition example_redirect :: response where
  "example_redirect = \<lparr>headers = Some Map.empty, url = Some ''http://host/dir/''\<rparr>"

definition example_download :: response where
  "example_download =
     \<lparr>headers = Some [''Content-Type'' \<mapsto> ''application/octet-stream'',
                       ''Content-Length'' \<mapsto> ''1024''],
      url = Some ''http://host/disk.img''\<rparr>"

definition example_file_result :: response where
  "example_file_result = \<lparr>headers = None, url = None\<rparr>"

definition example_service :: image_service where
  "example_service href =
     (if href = ''http://host/images'' then Inr example_response
      else if href = ''http://host/dir'' then Inr example_redirect
      else if href = ''http://host/disk.img'' then Inr example_download
      else if href = ''http://down/disk.img'' then Inl OSError
      else Inr example_file_result)"

definition example_get_image_service :: "string \<Rightarrow> error + image_service" where
  "example_get_image_service href = Inr example_service"

section \<open>Properties\<close>

subsection \<open>Helper facts\<close>

lemma find_filter_case:
  "find P xs = (case filter P xs of [] \<Rightarrow> None | x # _ \<Rightarrow> Some x)"
  by (induction xs) auto

lemma names_two_length:
  assumes "2 \<le> card (set (map fmt_name formats))"
  shows "1 < length formats"
proof -
  have "card (set (map fmt_name formats)) \<le> length (map fmt_name formats)"
    by (rule card_length)
  with assms show ?thesis by simp
qed

lemma read_loop_Nil: "read_loop h wrapper [] = wrapper"
  by (simp add: read_loop.simps)

lemma read_loop_Cons:
  "read_loop h wrapper (b # rest) =
     (let wrapper' = wrapper_eat h wrapper (take 4096 (b # rest)) in
      if truthy_formats (wrapper_formats h wrapper') then wrapper'
      else read_loop h wrapper' (drop 4096 (b # rest)))"
  by (subst read_loop.simps) simp

lemma py_trunc_le:
  assumes "r \<le> real_of_int v"
  shows "py_trunc r \<le> v"
proof (cases "0 \<le> r")
  case True
  have "\<lfloor>r\<rfloor> \<le> \<lfloor>real_of_int v\<rfloor>" using assms by (rule floor_mono)
  with True show ?thesis by (simp add: py_trunc_def)
next
  case False
  have "\<lceil>r\<rceil> \<le> \<lceil>real_of_int v\<rceil>" using assms by (rule ceiling_mono)
  with False show ?thesis by (simp add: py_trunc_def)
qed

subsection \<open>Sequencing, files and the example host\<close>

lemma and_then_Inr_iff:
  "and_then m f w = (Inr x, w') \<longleftrightarrow> (\<exists>a w1. m w = (Inr a, w1) \<and> f a w1 = (Inr x, w'))"
  by (auto simp: and_then_def split: prod.splits sum.splits)

lemma remove_path_on_error_Inr_iff:
  "remove_path_on_error p body w = (Inr x, w') \<longleftrightarrow> body w = (Inr x, w')"
  by (auto simp: remove_path_on_error_def split: prod.splits sum.splits)

lemma detect_file_format_cong:
  "fs p = fs' p' \<Longrightarrow> detect_file_format h fs p = detect_file_format h fs' p'"
  by (simp add: detect_file_format_def)

lemma safety_check_image_Inr_iff:
  "safety_check_image h p nd w = (Inr fmt, w1) \<longleftrightarrow>
     (\<exists>info. detect_file_format h (files w) p = Inr (Some info)
        \<and> safety_check_passes info \<and> fmt = fmt_name info \<and> w1 = w)"
  by (auto simp: safety_check_image_def Let_def split: sum.splits option.splits)

lemma get_source_format_Inr_iff:
  "get_source_format h href p w = (Inr fmt, w1) \<longleftrightarrow>
     (\<exists>info. detect_file_format h (files w) p = Inr (Some info)
        \<and> fmt = fmt_name info \<and> w1 = w)"
  by (auto simp: get_source_format_def split: sum.splits option.splits)

lemma spawned_log_msg [simp]: "spawned (log_msg l msg w) = spawned w"
  by (simp add: spawned_def log_msg_def)

lemma files_log_msg [simp]: "files (log_msg l msg w) = files w"
  by (simp add: log_msg_def)

lemma safety_check_image_effects:
  "safety_check_image h p nd w = (r, w1) \<Longrightarrow> spawned w1 = spawned w \<and> files w1 = files w"
  by (auto simp: safety_check_image_def Let_def split: sum.splits option.splits if_splits)

lemma get_source_format_effects:
  "get_source_format h href p w = (r, w1) \<Longrightarrow> spawned w1 = spawned w \<and> files w1 = files w"
  by (auto simp: get_source_format_def split: sum.splits option.splits if_splits)

lemma image_to_raw_inspect_effects:
  assumes "image_to_raw_inspect h cfg href p path_tmp w = (r, w1)"
  shows "spawned w1 = spawned w \<and> files w1 = files w"
proof (cases "disable_deep_image_inspection cfg")
  case False
  obtain r0 w0 where s: "safety_check_image h path_tmp None w = (r0, w0)"
    by (cases "safety_check_image h path_tmp None w")
  from safety_check_image_effects [OF s] assms False s show ?thesis
    by (cases r0) (auto simp: image_to_raw_inspect_def and_then_def split: if_splits)
next
  case True
  obtain r0 w0 where s: "get_source_format h href p w = (r0, w0)"
    by (cases "get_source_format h href p w")
  from get_source_format_effects [OF s] assms True s show ?thesis
    by (cases r0) (auto simp: image_to_raw_inspect_def and_then_def split: if_splits)
qed

lemma spawned_delete_if_exists [simp]: "spawned (delete_if_exists p w) = spawned w"
  by (simp add: spawned_def delete_if_exists_def)

lemma detect_file_format_upd_other:
  "q \<noteq> p \<Longrightarrow> detect_file_format h (fs(q := x)) p = detect_file_format h fs p"
  by (rule detect_file_format_cong) simp

lemma detect_file_format_missing:
  "fs p = None \<Longrightarrow> detect_file_format h fs p = Inl FileNotFoundError"
  by (simp add: detect_file_format_def)

lemma example_candidates_not_Nil: "example_candidates s \<noteq> []"
  by (simp add: example_candidates_def split: list.splits)

lemma example_read_loop:
  "length bs < 4096 \<Longrightarrow> read_loop example_host [] (b # bs) = b # bs"
  by (simp add: read_loop_Cons example_host_def truthy_formats_def
        example_candidates_not_Nil)

lemma example_detect_file_format:
  assumes "fs p = Some (b # bs)" and "length bs < 4096"
  shows "detect_file_format example_host fs p =
     (if b = 0x51 then Inr (Some (example_info ''qcow2'' (b # bs)))
      else if b = 0x43 then Inr (Some (example_info ''iso'' (b # bs)))
      else if b = 0x45 then Inr (Some (example_info ''gpt'' (b # bs)))
      else if b = 0x4B then Inl ImageFormatError
      else Inr (Some (example_info ''raw'' (b # bs))))"
proof -
  have loop: "wrapper_close example_host
                (read_loop example_host (wrapper_init example_host) (b # bs)) = b # bs"
    using example_read_loop [OF assms(2)] by (simp add: example_host_def)
  have fmt: "wrapper_format example_host (b # bs) = example_format (b # bs)"
    and fmts: "wrapper_formats example_host (b # bs) = Some (example_candidates (b # bs))"
    by (simp_all add: example_host_def)
  show ?thesis
    unfolding detect_file_format_def assms(1) option.case Let_def loop fmt fmts
    by (auto simp: example_format_def example_candidates_def example_info_def
          doubleton_eq_iff)
qed

lemma example_detect_upd:
  "length bs < 4096 \<Longrightarrow>
   detect_file_format example_host (fs(p \<mapsto> b # bs)) p =
     (if b = 0x51 then Inr (Some (example_info ''qcow2'' (b # bs)))
      else if b = 0x43 then Inr (Some (example_info ''iso'' (b # bs)))
      else if b = 0x45 then Inr (Some (example_info ''gpt'' (b # bs)))
      else if b = 0x4B then Inl ImageFormatError
      else Inr (Some (example_info ''raw'' (b # bs))))"
  by (rule example_detect_file_format) simp_all

lemma example_host_tools:
  "available_memory example_host = 4096"
  "qemu_img example_host out_format source_format content =
     (if drop 1 content = [0x00] then Converted content else Converted (0x45 # content))"
  "zstd example_host content =
     (if drop 4 content = [] then NonZeroExit else Done (drop 4 content))"
  by (simp_all add: example_host_def)

lemmas example_eval =
  example_host_tools example_detect_upd detect_file_format_upd_other detect_file_format_missing
  example_world_def example_conf_def example_conf_iso_def example_conf_insecure_def
  example_conf_strict_def
  example_info_def image_to_raw_def image_to_raw_inspect_def and_then_def
  remove_path_on_error_def safety_check_image_def get_source_format_def
  image_format_permitted_def RAW_IMAGE_FORMATS_def is_memory_insufficient_def
  convert_image_def path_unlink_def path_rename_def delete_if_exists_def log_msg_def
  node_or_image_cache_def Let_def

lemma image_to_raw_inspect_enabled:
  assumes "\<not> disable_deep_image_inspection cfg"
    and "detect_file_format h (files w) path_tmp = Inr (Some info)"
    and "image_to_raw_inspect h cfg href p path_tmp w = (Inr fmt, w1)"
  shows "fmt = fmt_name info \<and> w1 = w \<and> safety_check_passes info
         \<and> image_format_permitted cfg fmt"
  using assms
  by (auto simp: image_to_raw_inspect_def and_then_def safety_check_image_def
        split: if_splits)

lemma path_rename_Inr:
  assumes "path_rename src dst w = (Inr u, w')"
  shows "\<exists>content. files w src = Some content
           \<and> w' = w\<lparr>files := ((files w)(src := None))(dst \<mapsto> content)\<rparr>"
  using assms by (auto simp: path_rename_def split: option.splits)

lemma image_to_raw_converted_ok:
  assumes enabled: "\<not> disable_deep_image_inspection cfg"
    and src: "detect_file_format h (files w) path_tmp = Inr (Some info)"
    and fmt: "fmt_name info \<notin> {''raw'', ''gpt'', ''iso''}"
    and run: "image_to_raw h cfg href p path_tmp w = (Inr (), w')"
  shows "\<exists>info'. detect_file_format h (files w') p = Inr (Some info')
           \<and> fmt_name info' \<in> {''raw'', ''gpt''}"
proof -
  from run obtain f w1 where
    insp: "image_to_raw_inspect h cfg href p path_tmp w = (Inr f, w1)"
    and rest: "(if f \<notin> RAW_IMAGE_FORMATS \<and> f \<noteq> ''iso'' then
               let staged = p @ ''.converted'' in
               (case is_memory_insufficient h cfg True of
                  Inl e \<Rightarrow> (Inl e, w1)
                | Inr _ \<Rightarrow>
                    remove_path_on_error staged
                      (and_then (convert_image h path_tmp staged ''raw'' f)
                         (\<lambda>_. and_then (path_unlink path_tmp)
                            (\<lambda>_. and_then (get_source_format h href staged)
                               (\<lambda>new_fmt w4.
                                  if new_fmt \<notin> RAW_IMAGE_FORMATS then
                                    (Inl ImageConvertFailed, w4)
                                  else path_rename staged p w4)))) w1)
             else path_rename path_tmp p w1) = (Inr (), w')"
    unfolding image_to_raw_def remove_path_on_error_Inr_iff and_then_Inr_iff by blast
  from image_to_raw_inspect_enabled [OF enabled src insp]
  have f: "f = fmt_name info" by simp
  with fmt have branch: "f \<notin> RAW_IMAGE_FORMATS \<and> f \<noteq> ''iso''"
    by (simp add: RAW_IMAGE_FORMATS_def)
  from rest branch obtain w3 new_fmt w4 where
    redetect: "get_source_format h href (p @ ''.converted'') w3 = (Inr new_fmt, w4)"
    and last: "(if new_fmt \<notin> RAW_IMAGE_FORMATS then (Inl ImageConvertFailed, w4)
                else path_rename (p @ ''.converted'') p w4) = (Inr (), w')"
    by (auto simp: Let_def remove_path_on_error_Inr_iff and_then_Inr_iff
          split: sum.splits)
  from last have raw: "new_fmt \<in> RAW_IMAGE_FORMATS"
    and mv: "path_rename (p @ ''.converted'') p w4 = (Inr (), w')"
    by (auto split: if_splits)
  from redetect obtain info' where
    d: "detect_file_format h (files w3) (p @ ''.converted'') = Inr (Some info')"
    and n: "new_fmt = fmt_name info'" and w4: "w4 = w3"
    unfolding get_source_format_Inr_iff by blast
  from path_rename_Inr [OF mv] obtain content where
    c: "files w4 (p @ ''.converted'') = Some content"
    and w': "w' = w4\<lparr>files := ((files w4)(p @ ''.converted'' := None))(p \<mapsto> content)\<rparr>"
    by blast
  have "detect_file_format h (files w') p
          = detect_file_format h (files w3) (p @ ''.converted'')"
    by (rule detect_file_format_cong) (simp add: w' c [unfolded w4] w4)
  with d raw n show ?thesis
    by (auto simp: RAW_IMAGE_FORMATS_def)
qed

lemma image_to_raw_converted_wrong:
  assumes enabled: "\<not> disable_deep_image_inspection cfg"
    and src: "detect_file_format h (files w) path_tmp = Inr (Some info)"
    and fmt: "fmt_name info \<notin> {''raw'', ''gpt'', ''iso''}"
    and content: "files w path_tmp = Some content"
    and safe: "safety_check_passes info"
    and permitted: "image_format_permitted cfg (fmt_name info)"
    and memory: "\<not> available_memory h < minimum_required_memory cfg"
    and conv: "qemu_img h ''raw'' (fmt_name info) content = Converted out"
    and redetect: "detect_file_format h [p @ ''.converted'' \<mapsto> out] (p @ ''.converted'')
                     = Inr (Some info2)"
    and wrong: "fmt_name info2 \<notin> {''raw'', ''gpt''}"
    and distinct: "path_tmp \<noteq> p @ ''.converted''"
  shows "\<exists>w'. image_to_raw h cfg href p path_tmp w = (Inl ImageConvertFailed, w')
           \<and> files w' path_tmp = None
           \<and> files w' (p @ ''.converted'') = None
           \<and> (path_tmp \<noteq> p \<longrightarrow> files w' p = files w p)
           \<and> (files w p = None \<longrightarrow> files w' p = None)"
proof -
  let ?staged = "p @ ''.converted''"
  define w2 where
    "w2 = w\<lparr>trace := trace w @ [Convert path_tmp ?staged ''raw'' (fmt_name info)],
             files := (files w)(?staged \<mapsto> out)\<rparr>"
  define w3 where "w3 = w2\<lparr>files := (files w2)(path_tmp := None)\<rparr>"
  have insp: "image_to_raw_inspect h cfg href p path_tmp w = (Inr (fmt_name info), w)"
    using enabled src safe permitted
    by (simp add: image_to_raw_inspect_def and_then_def safety_check_image_def)
  have branch: "fmt_name info \<notin> RAW_IMAGE_FORMATS \<and> fmt_name info \<noteq> ''iso''"
    using fmt by (simp add: RAW_IMAGE_FORMATS_def)
  have c1: "convert_image h path_tmp ?staged ''raw'' (fmt_name info) w = (Inr (), w2)"
    by (simp add: convert_image_def content conv w2_def)
  have c2: "path_unlink path_tmp w2 = (Inr (), w3)"
    using distinct by (simp add: path_unlink_def content w2_def w3_def)
  have "detect_file_format h (files w3) ?staged
          = detect_file_format h [?staged \<mapsto> out] ?staged"
    by (rule detect_file_format_cong) (use distinct in \<open>simp add: w2_def w3_def\<close>)
  then have c3: "get_source_format h href ?staged w3 = (Inr (fmt_name info2), w3)"
    by (simp add: get_source_format_def redetect)
  have inner: "and_then (convert_image h path_tmp ?staged ''raw'' (fmt_name info))
                 (\<lambda>_. and_then (path_unlink path_tmp)
                    (\<lambda>_. and_then (get_source_format h href ?staged)
                       (\<lambda>new_fmt w4.
                          if new_fmt \<notin> RAW_IMAGE_FORMATS then (Inl ImageConvertFailed, w4)
                          else path_rename ?staged p w4))) w
               = (Inl ImageConvertFailed, w3)"
    using wrong by (simp add: and_then_def c1 c2 c3 RAW_IMAGE_FORMATS_def)
  have run: "image_to_raw h cfg href p path_tmp w
               = (Inl ImageConvertFailed,
                  delete_if_exists path_tmp (delete_if_exists ?staged w3))"
    using branch memory
    by (simp add: image_to_raw_def insp inner remove_path_on_error_def Let_def
          and_then_def [of "image_to_raw_inspect h cfg href p path_tmp"]
          is_memory_insufficient_def)
  show ?thesis
    unfolding run using content by (auto simp: delete_if_exists_def w2_def w3_def)
qed

subsection \<open>The permitted-format check\<close>

text \<open>
  C1. For every format name and every optional expected format,
  \<open>check_if_image_format_is_permitted\<close> returns without raising exactly when the
  format is in the permitted set (where \<open>raw\<close> in the configured list permits both
  \<open>raw\<close> and \<open>gpt\<close>) and the expected format is absent, or equal to the format, or
  is \<open>raw\<close> while the format is \<open>raw\<close> or \<open>gpt\<close>, or is one of the legacy aliases
  \<open>aki\<close> and \<open>ari\<close>; in every other case it raises \<open>InvalidImage\<close>.
\<close>

theorem check_if_image_format_is_permitted_iff:
  "fst (check_if_image_format_is_permitted cfg fmt expected nd w) =
     (if (fmt \<in> set (permitted_image_formats cfg)
           \<or> (''raw'' \<in> set (permitted_image_formats cfg) \<and> fmt \<in> {''raw'', ''gpt''}))
         \<and> (expected = None \<or> expected = Some fmt
             \<or> (expected = Some ''raw'' \<and> fmt \<in> {''raw'', ''gpt''})
             \<or> expected \<in> {Some ''aki'', Some ''ari''})
      then Inr () else Inl InvalidImage)"
  by (cases expected)
     (auto simp: check_if_image_format_is_permitted_def image_format_permitted_def
        image_format_matches_def RAW_IMAGE_FORMATS_def Let_def)

theorem check_if_image_format_is_permitted_iff_witness:
  "fst (check_if_image_format_is_permitted example_conf ''gpt'' (Some ''raw'') None
          example_world) = Inr ()
   \<and> fst (check_if_image_format_is_permitted example_conf ''qcow2'' (Some ''raw'') None
          example_world) = Inl InvalidImage"
  using check_if_image_format_is_permitted_iff
          [of example_conf "''gpt''" "Some ''raw''" None example_world]
        check_if_image_format_is_permitted_iff
          [of example_conf "''qcow2''" "Some ''raw''" None example_world]
  by (simp add: example_conf_def)

subsection \<open>Format detection\<close>

text \<open>
  C2. When the inspection of a file ends with more than one candidate format, which
  the library reports as \<open>ImageFormatError\<close>: if the set of candidate names is exactly
  \<open>{iso, gpt}\<close>, \<open>detect_file_format\<close> returns the iso candidate; for every other
  set of two or more candidate names it raises \<open>ImageFormatError\<close>.
\<close>

theorem detect_file_format_multiple_formats:
  assumes present: "fs p = Some content"
    and formats: "wrapper_formats h (wrapper_close h (read_loop h (wrapper_init h) content))
                    = Some formats"
    and multi: "1 < length formats \<Longrightarrow>
                  wrapper_format h (wrapper_close h (read_loop h (wrapper_init h) content))
                    = Inl ImageFormatError"
  shows "(set (map fmt_name formats) = {''iso'', ''gpt''} \<longrightarrow>
            detect_file_format h fs p = Inr (find (\<lambda>x. fmt_name x = ''iso'') formats)
            \<and> (\<exists>x \<in> set formats. fmt_name x = ''iso''
                  \<and> find (\<lambda>x. fmt_name x = ''iso'') formats = Some x))
         \<and> (2 \<le> card (set (map fmt_name formats))
              \<and> set (map fmt_name formats) \<noteq> {''iso'', ''gpt''} \<longrightarrow>
            detect_file_format h fs p = Inl ImageFormatError)"
proof (intro conjI impI)
  assume names: "set (map fmt_name formats) = {''iso'', ''gpt''}"
  have "card (set (map fmt_name formats)) = 2"
    unfolding names by simp
  then have "1 < length formats"
    by (intro names_two_length) simp
  then have err: "wrapper_format h (wrapper_close h (read_loop h (wrapper_init h) content))
                    = Inl ImageFormatError"
    by (rule multi)
  have "''iso'' \<in> set (map fmt_name formats)"
    unfolding names by simp
  then obtain x where x: "x \<in> set formats" "fmt_name x = ''iso''"
    by auto
  then have "filter (\<lambda>x. fmt_name x = ''iso'') formats \<noteq> []"
    by (auto simp: filter_empty_conv)
  then obtain y ys where y: "filter (\<lambda>x. fmt_name x = ''iso'') formats = y # ys"
    by (cases "filter (\<lambda>x. fmt_name x = ''iso'') formats") auto
  then have "y \<in> set (filter (\<lambda>x. fmt_name x = ''iso'') formats)"
    by simp
  then have yin: "y \<in> set formats" "fmt_name y = ''iso''"
    by auto
  have found: "find (\<lambda>x. fmt_name x = ''iso'') formats = Some y"
    by (simp add: find_filter_case y)
  show "detect_file_format h fs p = Inr (find (\<lambda>x. fmt_name x = ''iso'') formats)"
    using names by (simp add: detect_file_format_def present formats err found y)
  show "\<exists>x \<in> set formats. fmt_name x = ''iso''
          \<and> find (\<lambda>x. fmt_name x = ''iso'') formats = Some x"
    using yin found by blast
next
  assume other: "2 \<le> card (set (map fmt_name formats))
                   \<and> set (map fmt_name formats) \<noteq> {''iso'', ''gpt''}"
  then have "1 < length formats"
    by (intro names_two_length) simp
  then have err: "wrapper_format h (wrapper_close h (read_loop h (wrapper_init h) content))
                    = Inl ImageFormatError"
    by (rule multi)
  show "detect_file_format h fs p = Inl ImageFormatError"
    using other by (simp add: detect_file_format_def present formats err)
qed

lemma example_inspection_iso_gpt:
  "wrapper_close example_host
     (read_loop example_host (wrapper_init example_host) [0x43, 0x44, 0x30, 0x30, 0x31])
   = [0x43, 0x44, 0x30, 0x30, 0x31]"
  by (simp add: read_loop_Cons read_loop_Nil example_host_def truthy_formats_def
        example_candidates_def)

lemma example_inspection_vmdk_qcow2:
  "wrapper_close example_host
     (read_loop example_host (wrapper_init example_host) [0x4B, 0x44, 0x4D, 0x56])
   = [0x4B, 0x44, 0x4D, 0x56]"
  by (simp add: read_loop_Cons read_loop_Nil example_host_def truthy_formats_def
        example_candidates_def)

theorem detect_file_format_multiple_formats_witness:
  "detect_file_format example_host (files example_world) ''/cache/image.part''
     = Inr (Some (example_info ''iso'' [0x43, 0x44, 0x30, 0x30, 0x31]))
   \<and> detect_file_format example_host (files example_world) ''/cache/odd.part''
     = Inl ImageFormatError"
proof -
  have a: "files example_world ''/cache/image.part'' = Some [0x43, 0x44, 0x30, 0x30, 0x31]"
    by (simp add: example_world_def)
  have b: "files example_world ''/cache/odd.part'' = Some [0x4B, 0x44, 0x4D, 0x56]"
    by (simp add: example_world_def)
  have fa: "wrapper_formats example_host
              (wrapper_close example_host
                (read_loop example_host (wrapper_init example_host)
                   [0x43, 0x44, 0x30, 0x30, 0x31]))
            = Some [example_info ''gpt'' [0x43, 0x44, 0x30, 0x30, 0x31],
                    example_info ''iso'' [0x43, 0x44, 0x30, 0x30, 0x31]]"
    unfolding example_inspection_iso_gpt
    by (simp add: example_host_def example_candidates_def)
  have fb: "wrapper_formats example_host
              (wrapper_close example_host
                (read_loop example_host (wrapper_init example_host)
                   [0x4B, 0x44, 0x4D, 0x56]))
            = Some [example_info ''vmdk'' [0x4B, 0x44, 0x4D, 0x56],
                    example_info ''qcow2'' [0x4B, 0x44, 0x4D, 0x56]]"
    unfolding example_inspection_vmdk_qcow2
    by (simp add: example_host_def example_candidates_def)
  have ma: "wrapper_format example_host
              (wrapper_close example_host
                (read_loop example_host (wrapper_init example_host)
                   [0x43, 0x44, 0x30, 0x30, 0x31])) = Inl ImageFormatError"
    unfolding example_inspection_iso_gpt
    by (simp add: example_host_def example_format_def example_candidates_def)
  have mb: "wrapper_format example_host
              (wrapper_close example_host
                (read_loop example_host (wrapper_init example_host)
                   [0x4B, 0x44, 0x4D, 0x56])) = Inl ImageFormatError"
    unfolding example_inspection_vmdk_qcow2
    by (simp add: example_host_def example_format_def example_candidates_def)
  have na: "set (map fmt_name [example_info ''gpt'' [0x43, 0x44, 0x30, 0x30, 0x31],
                    example_info ''iso'' [0x43, 0x44, 0x30, 0x30, 0x31]])
              = {''iso'', ''gpt''}"
    by (auto simp: example_info_def)
  have nb: "2 \<le> card (set (map fmt_name [example_info ''vmdk'' [0x4B, 0x44, 0x4D, 0x56],
                    example_info ''qcow2'' [0x4B, 0x44, 0x4D, 0x56]]))
            \<and> set (map fmt_name [example_info ''vmdk'' [0x4B, 0x44, 0x4D, 0x56],
                    example_info ''qcow2'' [0x4B, 0x44, 0x4D, 0x56]]) \<noteq> {''iso'', ''gpt''}"
    by (simp add: example_info_def doubleton_eq_iff)
  from detect_file_format_multiple_formats
         [where fs = "files example_world" and p = "''/cache/image.part''", OF a fa ma] na
  have "detect_file_format example_host (files example_world) ''/cache/image.part''
          = Inr (find (\<lambda>x. fmt_name x = ''iso'')
                   [example_info ''gpt'' [0x43, 0x44, 0x30, 0x30, 0x31],
                    example_info ''iso'' [0x43, 0x44, 0x30, 0x30, 0x31]])"
    by blast
  moreover from detect_file_format_multiple_formats
         [where fs = "files example_world" and p = "''/cache/odd.part''", OF b fb mb] nb
  have "detect_file_format example_host (files example_world) ''/cache/odd.part''
          = Inl ImageFormatError"
    by blast
  ultimately show ?thesis
    by (simp add: example_info_def)
qed

subsection \<open>The size of the converted image\<close>

text \<open>
  C10. For every file in which \<open>detect_file_format\<close> finds a format,
  \<open>converted_size\<close> without estimate returns the virtual size, and with estimate it
  returns \<open>int(min(actual_size * raw_image_growth_factor, virtual_size))\<close>, for every
  rounding of floats: the actual size is converted to a float (an overflow is raised when
  that is not finite), the product with the growth factor is rounded, and the result is
  the truncation of the smaller of the rounded product and the virtual size; an infinite
  product gives the virtual size when it is positive and raises otherwise, as a NaN does.
  A returned estimate never exceeds the virtual size.
\<close>

theorem converted_size_estimate:
  assumes "detect_file_format h fs p = Inr (Some data)"
  shows "converted_size h cfg fs p False = Inr (virtual_size data)
         \<and> converted_size h cfg fs p True =
             (case fround h (real_of_int (actual_size data)) of
                Finite a \<Rightarrow>
                  (case (case raw_image_growth_factor cfg of
                           Finite g \<Rightarrow> fround h (a * g)
                         | PosInf \<Rightarrow> (if 0 < a then PosInf else if a < 0 then NegInf
                                      else NaN)
                         | NegInf \<Rightarrow> (if 0 < a then NegInf else if a < 0 then PosInf
                                      else NaN)
                         | NaN \<Rightarrow> NaN) of
                     Finite x \<Rightarrow>
                       (let m = min x (real_of_int (virtual_size data))
                        in Inr (if 0 \<le> m then \<lfloor>m\<rfloor> else \<lceil>m\<rceil>))
                   | PosInf \<Rightarrow> Inr (virtual_size data)
                   | NegInf \<Rightarrow> Inl OverflowError
                   | NaN \<Rightarrow> Inl ValueError)
              | PosInf \<Rightarrow> Inl OverflowError
              | NegInf \<Rightarrow> Inl OverflowError
              | NaN \<Rightarrow> Inl OverflowError)
         \<and> (\<forall>n. converted_size h cfg fs p True = Inr n \<longrightarrow> n \<le> virtual_size data)"
proof (intro conjI allI impI)
  show "converted_size h cfg fs p False = Inr (virtual_size data)"
    by (simp add: converted_size_def assms)
next
  have fin: "\<And>x. py_int (py_min_float_int (Finite x) (virtual_size data))
                    = (let m = min x (real_of_int (virtual_size data))
                       in Inr (if 0 \<le> m then \<lfloor>m\<rfloor> else \<lceil>m\<rceil>))"
    by (simp add: py_min_float_int_def int_less_float_def py_int_def min_def
          py_trunc_def Let_def)
  have inf: "py_int (py_min_float_int PosInf (virtual_size data)) = Inr (virtual_size data)"
    and ninf: "py_int (py_min_float_int NegInf (virtual_size data)) = Inl OverflowError"
    and nan: "py_int (py_min_float_int NaN (virtual_size data)) = Inl ValueError"
    by (simp_all add: py_min_float_int_def int_less_float_def py_int_def)
  show "converted_size h cfg fs p True =
          (case fround h (real_of_int (actual_size data)) of
             Finite a \<Rightarrow>
               (case (case raw_image_growth_factor cfg of
                        Finite g \<Rightarrow> fround h (a * g)
                      | PosInf \<Rightarrow> (if 0 < a then PosInf else if a < 0 then NegInf
                                   else NaN)
                      | NegInf \<Rightarrow> (if 0 < a then NegInf else if a < 0 then PosInf
                                   else NaN)
                      | NaN \<Rightarrow> NaN) of
                  Finite x \<Rightarrow>
                    (let m = min x (real_of_int (virtual_size data))
                     in Inr (if 0 \<le> m then \<lfloor>m\<rfloor> else \<lceil>m\<rceil>))
                | PosInf \<Rightarrow> Inr (virtual_size data)
                | NegInf \<Rightarrow> Inl OverflowError
                | NaN \<Rightarrow> Inl ValueError)
           | PosInf \<Rightarrow> Inl OverflowError
           | NegInf \<Rightarrow> Inl OverflowError
           | NaN \<Rightarrow> Inl OverflowError)"
    by (simp add: converted_size_def assms py_mul_int_float_def float_mul_def fin inf ninf nan
          split: pyfloat.splits)
next
  fix n
  assume ret: "converted_size h cfg fs p True = Inr n"
  then obtain x where
    x: "py_mul_int_float (fround h) (actual_size data) (raw_image_growth_factor cfg) = Inr x"
    and n: "py_int (py_min_float_int x (virtual_size data)) = Inr n"
    by (auto simp: converted_size_def assms Let_def split: sum.splits)
  show "n \<le> virtual_size data"
  proof (cases "int_less_float (virtual_size data) x")
    case True
    with n show ?thesis by (simp add: py_min_float_int_def py_int_def)
  next
    case False
    with n obtain r where r: "x = Finite r" "n = py_trunc r"
      by (cases x) (auto simp: py_min_float_int_def py_int_def)
    with False have "r \<le> real_of_int (virtual_size data)"
      by (simp add: int_less_float_def)
    then show ?thesis unfolding r by (rule py_trunc_le)
  qed
qed

text \<open>
  In the example the file has an actual size of 4 and a virtual size of 16. With the
  growth factor 2 the estimate is 8; with the growth factor 79/40 the exact product 7.9
  is rounded to the float 8, and the estimate is 8 as well, not 7.
\<close>

theorem converted_size_estimate_witness:
  "detect_file_format example_host (files example_world) ''/cache/disk.part''
     = Inr (Some (example_info ''qcow2'' [0x51, 0x46, 0x49, 0xFB]))
   \<and> converted_size example_host example_conf (files example_world) ''/cache/disk.part'' False
       = Inr 16
   \<and> converted_size example_host example_conf (files example_world) ''/cache/disk.part'' True
       = Inr 8
   \<and> converted_size example_host example_conf_growth (files example_world)
        ''/cache/disk.part'' True
       = Inr 8"
proof -
  have d: "detect_file_format example_host (files example_world) ''/cache/disk.part''
             = Inr (Some (example_info ''qcow2'' [0x51, 0x46, 0x49, 0xFB]))"
    by (simp add: example_eval)
  have r: "\<And>x. fround example_host x = Finite (real_of_int (round (4 * x)) / 4)"
    by (simp add: example_host_def)
  have g: "raw_image_growth_factor example_conf = Finite 2"
    "raw_image_growth_factor example_conf_growth = Finite (79 / 40)"
    by (simp_all add: example_conf_def example_conf_growth_def)
  have s: "actual_size (example_info ''qcow2'' [0x51, 0x46, 0x49, 0xFB]) = 4"
    "virtual_size (example_info ''qcow2'' [0x51, 0x46, 0x49, 0xFB]) = 16"
    by (simp_all add: example_info_def)
  have q: "round (158 / 5 :: real) = 32"
    by (simp add: round_def)
  from converted_size_estimate [OF d, of example_conf]
       converted_size_estimate [OF d, of example_conf_growth]
  show ?thesis
    using d by (simp add: r g s q)
qed

subsection \<open>Is the image source a path?\<close>

text \<open>
  C9, as stated, fails: a response with the content type \<open>text/html\<close> and a
  content length, on a URL that does not end with a slash, is a path for the code and
  not a path for the specified order of checks.
\<close>

theorem is_source_a_path_html_with_length_counterexample:
  "is_source_a_path example_get_image_service (Some ''http://host/images'') = Inr (Some True)
   \<and> is_path_source_as_specified (example_service ''http://host/images'') = Some False"
  by (simp add: is_source_a_path_def is_path_source_as_specified_def
        example_get_image_service_def example_service_def example_response_def
        startswith_def endswith_def)

text \<open>
  A result of the probe without a URL, for which neither check of the headers decides,
  makes \<open>is_source_a_path\<close> raise \<open>AttributeError\<close>.
\<close>

lemma is_source_a_path_without_url:
  "is_source_a_path example_get_image_service (Some ''file:///srv/image'')
     = Inl AttributeError"
  by (simp add: is_source_a_path_def example_get_image_service_def example_service_def
        example_file_result_def)

text \<open>
  C9, amended. An empty or missing image source gives unknown without a probe. For every
  non-empty image source for which an image service is found, \<open>is_source_a_path\<close>
  returns, in this order of precedence: unknown when the probe raises; true when the
  headers carry a content type that starts with \<open>text/html\<close>, with or without a
  content length; false when they carry a content type together with a content length;
  and, when the result of the probe has a URL, true when that URL ends with a slash and
  false otherwise.
\<close>

theorem is_source_a_path_precedence:
  "(image_source = None \<or> image_source = Some [] \<longrightarrow>
      is_source_a_path get_image_service image_source = Inr None)
   \<and> (\<forall>src svc.
         image_source = Some src \<and> src \<noteq> [] \<and> get_image_service src = Inr svc \<longrightarrow>
         (case svc src of
            Inl e \<Rightarrow> is_source_a_path get_image_service image_source = Inr None
          | Inr res \<Rightarrow>
              (let hdrs = (case headers res of None \<Rightarrow> Map.empty | Some d \<Rightarrow> d) in
               if ''Content-Type'' \<in> dom hdrs
                  \<and> startswith (the (hdrs ''Content-Type'')) ''text/html''
               then is_source_a_path get_image_service image_source = Inr (Some True)
               else if ''Content-Type'' \<in> dom hdrs \<and> ''Content-Length'' \<in> dom hdrs
               then is_source_a_path get_image_service image_source = Inr (Some False)
               else (\<forall>u. url res = Some u \<longrightarrow>
                       is_source_a_path get_image_service image_source
                         = Inr (Some (endswith u ''/''))))))"
  by (auto simp: is_source_a_path_def Let_def startswith_def
        split: sum.splits option.splits)

theorem is_source_a_path_precedence_witness:
  "is_source_a_path example_get_image_service None = Inr None
   \<and> is_source_a_path example_get_image_service (Some ''http://down/disk.img'') = Inr None
   \<and> is_source_a_path example_get_image_service (Some ''http://host/images'')
       = Inr (Some True)
   \<and> is_source_a_path example_get_image_service (Some ''http://host/disk.img'')
       = Inr (Some False)
   \<and> is_source_a_path example_get_image_service (Some ''http://host/dir'')
       = Inr (Some True)"
proof -
  have g: "\<And>src. example_get_image_service src = Inr example_service"
    by (simp add: example_get_image_service_def)
  have a: "is_source_a_path example_get_image_service None = Inr None"
    using is_source_a_path_precedence [of None example_get_image_service] by simp
  have b: "is_source_a_path example_get_image_service (Some ''http://down/disk.img'')
             = Inr None"
    using is_source_a_path_precedence
            [of "Some ''http://down/disk.img''" example_get_image_service]
    by (simp add: g example_service_def)
  have c: "is_source_a_path example_get_image_service (Some ''http://host/images'')
             = Inr (Some True)"
    using is_source_a_path_precedence
            [of "Some ''http://host/images''" example_get_image_service]
    by (simp add: g example_service_def example_response_def startswith_def)
  have d: "is_source_a_path example_get_image_service (Some ''http://host/disk.img'')
             = Inr (Some False)"
    using is_source_a_path_precedence
            [of "Some ''http://host/disk.img''" example_get_image_service]
    by (simp add: g example_service_def example_download_def startswith_def)
  have e: "is_source_a_path example_get_image_service (Some ''http://host/dir'')
             = Inr (Some True)"
    using is_source_a_path_precedence
            [of "Some ''http://host/dir''" example_get_image_service]
    by (simp add: g example_service_def example_redirect_def endswith_def)
  from a b c d e show ?thesis by simp
qed

subsection \<open>Decompression of zstd-wrapped downloads\<close>

text \<open>
  What \<open>handle_zstd_compression\<close> does with a wrapped file, by the outcome of the
  decompressor: on success the original path holds the decompressed bytes; when the tool
  cannot be started the original file is moved back; when the tool exits with an error
  the exception is passed on and the file stays under the name with the suffix.
\<close>

lemma handle_zstd_compression_outcomes:
  assumes "files w p = Some content"
    and "startswith (take 4 content) [0x28, 0xB5, 0x2F, 0xFD]"
    and "\<not> disable_zstandard_decompression cfg"
  shows "case zstd h content of
           Done out \<Rightarrow>
             (\<exists>w'. handle_zstd_compression h cfg p w = (Inr (), w')
                \<and> files w' p = Some out \<and> files w' (p @ ''.zstd'') = None)
         | CannotExecute \<Rightarrow>
             (\<exists>w'. handle_zstd_compression h cfg p w = (Inr (), w')
                \<and> files w' p = Some content \<and> files w' (p @ ''.zstd'') = None)
         | NonZeroExit \<Rightarrow>
             (\<exists>w'. handle_zstd_compression h cfg p w = (Inl ProcessExecutionError, w')
                \<and> files w' p = None \<and> files w' (p @ ''.zstd'') = Some content)"
  using assms
  by (cases "zstd h content")
     (simp_all add: handle_zstd_compression_def and_then_def shutil_move_def path_rename_def
        execute_zstd_def endswith_def is_OSError_def log_msg_def Let_def)

text \<open>
  C5. A file that starts with the zstd magic number is moved aside and handed to the
  decompressor. The claim says that a failing decompressor leaves the original file at
  the original path. The code restores the file only for an \<open>OSError\<close>: here the
  decompressor exits with a non-zero status, the \<open>ProcessExecutionError\<close> leaves
  \<open>handle_zstd_compression\<close>, the original path holds no file and the compressed
  bytes stay under the name with the suffix \<open>.zstd\<close>.
\<close>

theorem handle_zstd_compression_nonzero_exit:
  "files example_world ''/cache/bad.img'' = Some [0x28, 0xB5, 0x2F, 0xFD]
   \<and> zstd example_host [0x28, 0xB5, 0x2F, 0xFD] = NonZeroExit
   \<and> fst (handle_zstd_compression example_host example_conf ''/cache/bad.img'' example_world)
       = Inl ProcessExecutionError
   \<and> files (snd (handle_zstd_compression example_host example_conf ''/cache/bad.img''
               example_world)) ''/cache/bad.img'' = None
   \<and> files (snd (handle_zstd_compression example_host example_conf ''/cache/bad.img''
               example_world)) ''/cache/bad.img.zstd'' = Some [0x28, 0xB5, 0x2F, 0xFD]"
  by (simp add: handle_zstd_compression_def example_world_def example_conf_def
        startswith_def and_then_def shutil_move_def path_rename_def execute_zstd_def
        is_OSError_def example_host_tools Let_def)

subsection \<open>Conversion to raw\<close>

text \<open>
  C8. With deep inspection disabled the claim has \<open>image_to_raw\<close> detect the format
  of the staging file. The code detects the format of the final path. Where the staging
  file is a raw image and the final path holds no file yet, the detection raises
  \<open>FileNotFoundError\<close>, no warning is logged, nothing reaches the final path and the
  staging file is removed. Where the staging file is a qcow2 image and the final path
  holds an older raw image, the call succeeds without running the converter and the final
  path holds the qcow2 bytes.
\<close>

theorem image_to_raw_insecure_reads_final_path:
  "detect_file_format example_host (files example_world) ''/cache/plain.part''
     = Inr (Some (example_info ''raw'' [0x00, 0x01]))
   \<and> files example_world ''/cache/plain'' = None
   \<and> image_to_raw example_host example_conf_insecure ''image'' ''/cache/plain''
        ''/cache/plain.part'' example_world
     = (Inl FileNotFoundError,
        example_world\<lparr>files := (files example_world)(''/cache/plain.part'' := None)\<rparr>)
   \<and> detect_file_format example_host (files example_world) ''/cache/disk.part''
     = Inr (Some (example_info ''qcow2'' [0x51, 0x46, 0x49, 0xFB]))
   \<and> detect_file_format example_host (files example_world) ''/cache/broken''
     = Inr (Some (example_info ''raw'' [0x01]))
   \<and> fst (image_to_raw example_host example_conf_insecure ''image'' ''/cache/broken''
        ''/cache/disk.part'' example_world) = Inr ()
   \<and> spawned (snd (image_to_raw example_host example_conf_insecure ''image'' ''/cache/broken''
        ''/cache/disk.part'' example_world)) = []
   \<and> files (snd (image_to_raw example_host example_conf_insecure ''image'' ''/cache/broken''
        ''/cache/disk.part'' example_world)) ''/cache/broken'' = Some [0x51, 0x46, 0x49, 0xFB]"
  by (simp add: example_eval spawned_def)

text \<open>
  C6. When \<open>image_to_raw\<close> has determined a format that is not raw, gpt or iso and the
  available memory is below the configured minimum, it raises \<open>ImageConvertFailed\<close>
  and no external tool has been invoked.
\<close>

theorem image_to_raw_memory_insufficient:
  assumes "image_to_raw_inspect h cfg href p path_tmp w = (Inr fmt, w1)"
    and "fmt \<notin> {''raw'', ''gpt'', ''iso''}"
    and "available_memory h < minimum_required_memory cfg"
  shows "image_to_raw h cfg href p path_tmp w = (Inl ImageConvertFailed, delete_if_exists path_tmp w1)
         \<and> spawned (delete_if_exists path_tmp w1) = spawned w"
proof -
  have "and_then (image_to_raw_inspect h cfg href p path_tmp)
          (\<lambda>fmt w1.
             if fmt \<notin> RAW_IMAGE_FORMATS \<and> fmt \<noteq> ''iso'' then
               let staged = p @ ''.converted'' in
               (case is_memory_insufficient h cfg True of
                  Inl e \<Rightarrow> (Inl e, w1)
                | Inr _ \<Rightarrow>
                    remove_path_on_error staged
                      (and_then (convert_image h path_tmp staged ''raw'' fmt)
                         (\<lambda>_. and_then (path_unlink path_tmp)
                            (\<lambda>_. and_then (get_source_format h href staged)
                               (\<lambda>new_fmt w4.
                                  if new_fmt \<notin> RAW_IMAGE_FORMATS then
                                    (Inl ImageConvertFailed, w4)
                                  else path_rename staged p w4)))) w1)
             else path_rename path_tmp p w1) w = (Inl ImageConvertFailed, w1)"
    using assms
    by (simp add: and_then_def RAW_IMAGE_FORMATS_def is_memory_insufficient_def)
  then have "image_to_raw h cfg href p path_tmp w
               = (Inl ImageConvertFailed, delete_if_exists path_tmp w1)"
    unfolding image_to_raw_def by (simp add: remove_path_on_error_def)
  with image_to_raw_inspect_effects [OF assms(1)] show ?thesis by simp
qed

theorem image_to_raw_memory_insufficient_witness:
  "image_to_raw_inspect example_host example_conf_strict ''image'' ''/cache/disk''
     ''/cache/disk.part'' example_world = (Inr ''qcow2'', example_world)
   \<and> available_memory example_host < minimum_required_memory example_conf_strict
   \<and> image_to_raw example_host example_conf_strict ''image'' ''/cache/disk''
        ''/cache/disk.part'' example_world
       = (Inl ImageConvertFailed, delete_if_exists ''/cache/disk.part'' example_world)
   \<and> spawned (delete_if_exists ''/cache/disk.part'' example_world) = []"
proof -
  have a: "image_to_raw_inspect example_host example_conf_strict ''image'' ''/cache/disk''
             ''/cache/disk.part'' example_world = (Inr ''qcow2'', example_world)"
    by (simp add: example_eval)
  have b: "''qcow2'' \<notin> {''raw'', ''gpt'', ''iso''}"
    by simp
  have c: "available_memory example_host < minimum_required_memory example_conf_strict"
    by (simp add: example_eval)
  have d: "spawned example_world = []"
    by (simp add: spawned_def example_world_def)
  from image_to_raw_memory_insufficient
         [where h = example_host and w = example_world, OF a b c] a c d
  show ?thesis by simp
qed

text \<open>
  C4, as stated, fails: a staged image that is detected as iso is rejected with
  \<open>InvalidImage\<close> when iso is not a permitted format, and nothing is renamed to the
  final path.
\<close>

theorem image_to_raw_iso_not_permitted_counterexample:
  "detect_file_format example_host (files example_world) ''/cache/image.part''
     = Inr (Some (example_info ''iso'' [0x43, 0x44, 0x30, 0x30, 0x31]))
   \<and> fst (image_to_raw example_host example_conf ''image'' ''/cache/image''
            ''/cache/image.part'' example_world) = Inl InvalidImage
   \<and> files (snd (image_to_raw example_host example_conf ''image'' ''/cache/image''
            ''/cache/image.part'' example_world)) ''/cache/image'' = None"
  by (simp add: example_eval)

text \<open>
  C4, amended. With deep inspection enabled, for every staged image that passes the
  safety check and whose detected format is raw, gpt or iso and is permitted,
  \<open>image_to_raw\<close> succeeds without invoking the converter (the trace is unchanged)
  and renames the staging file to the final path: the final path holds the bytes of the
  staged file, which still detect as the same format.
\<close>

theorem image_to_raw_skips_conversion:
  assumes "\<not> disable_deep_image_inspection cfg"
    and "files w path_tmp = Some content"
    and "detect_file_format h (files w) path_tmp = Inr (Some info)"
    and "safety_check_passes info"
    and "image_format_permitted cfg (fmt_name info)"
    and "fmt_name info \<in> {''raw'', ''gpt'', ''iso''}"
  shows "\<exists>w'. image_to_raw h cfg href p path_tmp w = (Inr (), w')
           \<and> trace w' = trace w
           \<and> files w' p = Some content
           \<and> (path_tmp \<noteq> p \<longrightarrow> files w' path_tmp = None)
           \<and> detect_file_format h (files w') p = Inr (Some info)"
proof -
  let ?w' = "w\<lparr>files := ((files w)(path_tmp := None))(p \<mapsto> content)\<rparr>"
  have insp: "image_to_raw_inspect h cfg href p path_tmp w = (Inr (fmt_name info), w)"
    using assms by (simp add: image_to_raw_inspect_def and_then_def safety_check_image_def)
  have run: "image_to_raw h cfg href p path_tmp w = (Inr (), ?w')"
    using assms(2,6)
    by (auto simp: image_to_raw_def remove_path_on_error_def and_then_def insp
          RAW_IMAGE_FORMATS_def path_rename_def)
  have "detect_file_format h (files ?w') p = detect_file_format h (files w) path_tmp"
    by (rule detect_file_format_cong) (simp add: assms(2))
  with run assms(3) show ?thesis by simp
qed

theorem image_to_raw_skips_conversion_witness:
  "\<exists>w'. image_to_raw example_host example_conf_iso ''image'' ''/cache/image''
           ''/cache/image.part'' example_world = (Inr (), w')
         \<and> trace w' = []
         \<and> files w' ''/cache/image'' = Some [0x43, 0x44, 0x30, 0x30, 0x31]
         \<and> files w' ''/cache/image.part'' = None
         \<and> detect_file_format example_host (files w') ''/cache/image''
             = Inr (Some (example_info ''iso'' [0x43, 0x44, 0x30, 0x30, 0x31]))"
proof -
  have a: "\<not> disable_deep_image_inspection example_conf_iso"
    by (simp add: example_conf_iso_def example_conf_def)
  have b: "files example_world ''/cache/image.part'' = Some [0x43, 0x44, 0x30, 0x30, 0x31]"
    by (simp add: example_world_def)
  have c: "detect_file_format example_host (files example_world) ''/cache/image.part''
             = Inr (Some (example_info ''iso'' [0x43, 0x44, 0x30, 0x30, 0x31]))"
    by (simp add: example_detect_file_format
          [where fs = "files example_world" and p = "''/cache/image.part''", OF b])
  have d: "safety_check_passes (example_info ''iso'' [0x43, 0x44, 0x30, 0x30, 0x31])"
    by (simp add: example_info_def)
  have e: "image_format_permitted example_conf_iso
             (fmt_name (example_info ''iso'' [0x43, 0x44, 0x30, 0x30, 0x31]))"
    by (simp add: example_info_def image_format_permitted_def example_conf_iso_def
          example_conf_def)
  have f: "fmt_name (example_info ''iso'' [0x43, 0x44, 0x30, 0x30, 0x31])
             \<in> {''raw'', ''gpt'', ''iso''}"
    by (simp add: example_info_def)
  have g: "trace example_world = []"
    by (simp add: example_world_def)
  from image_to_raw_skips_conversion [OF a b c d e f, of "''image''" "''/cache/image''"]
  show ?thesis by (simp add: g)
qed

text \<open>
  C3, as stated, fails: when the converter's output is detected as qcow2 again,
  \<open>image_to_raw\<close> raises \<open>ImageConvertFailed\<close> and leaves the final path as it
  was, so a file that was at the final path before the call is still there.
\<close>

theorem image_to_raw_final_path_kept_counterexample:
  "detect_file_format example_host (files example_world) ''/cache/broken.part''
     = Inr (Some (example_info ''qcow2'' [0x51, 0x00]))
   \<and> qemu_img example_host ''raw'' ''qcow2'' [0x51, 0x00] = Converted [0x51, 0x00]
   \<and> fst (image_to_raw example_host example_conf ''image'' ''/cache/broken''
            ''/cache/broken.part'' example_world) = Inl ImageConvertFailed
   \<and> files (snd (image_to_raw example_host example_conf ''image'' ''/cache/broken''
            ''/cache/broken.part'' example_world)) ''/cache/broken'' = Some [0x01]"
  by (simp add: example_eval)

text \<open>
  C3, amended. With deep inspection enabled, for every source image whose detected format
  is not raw, gpt or iso: a successful \<open>image_to_raw\<close> leaves at the final path a
  file whose detected format is raw or gpt; and if the image passes the safety check, its
  format is permitted, the memory suffices and the converter's output is detected as a
  format other than raw and gpt, then \<open>image_to_raw\<close> raises \<open>ImageConvertFailed\<close>,
  the staging file and the converted staging file are removed, and the final path is left
  as it was, so that no file exists there if none existed before the call (the staging
  path being different from the converted staging path).
\<close>

theorem image_to_raw_conversion:
  assumes enabled: "\<not> disable_deep_image_inspection cfg"
    and src: "detect_file_format h (files w) path_tmp = Inr (Some info)"
    and fmt: "fmt_name info \<notin> {''raw'', ''gpt'', ''iso''}"
  shows "(\<forall>w'. image_to_raw h cfg href p path_tmp w = (Inr (), w') \<longrightarrow>
            (\<exists>info'. detect_file_format h (files w') p = Inr (Some info')
                \<and> fmt_name info' \<in> {''raw'', ''gpt''}))
         \<and> (\<forall>content out info2.
               files w path_tmp = Some content
               \<and> safety_check_passes info
               \<and> image_format_permitted cfg (fmt_name info)
               \<and> \<not> available_memory h < minimum_required_memory cfg
               \<and> qemu_img h ''raw'' (fmt_name info) content = Converted out
               \<and> detect_file_format h [p @ ''.converted'' \<mapsto> out] (p @ ''.converted'')
                   = Inr (Some info2)
               \<and> fmt_name info2 \<notin> {''raw'', ''gpt''}
               \<and> path_tmp \<noteq> p @ ''.converted'' \<longrightarrow>
               (\<exists>w'. image_to_raw h cfg href p path_tmp w = (Inl ImageConvertFailed, w')
                  \<and> files w' path_tmp = None
                  \<and> files w' (p @ ''.converted'') = None
                  \<and> (path_tmp \<noteq> p \<longrightarrow> files w' p = files w p)
                  \<and> (files w p = None \<longrightarrow> files w' p = None)))"
proof (intro conjI allI impI)
  fix w'
  assume "image_to_raw h cfg href p path_tmp w = (Inr (), w')"
  with enabled src fmt
  show "\<exists>info'. detect_file_format h (files w') p = Inr (Some info')
          \<and> fmt_name info' \<in> {''raw'', ''gpt''}"
    by (rule image_to_raw_converted_ok)
next
  fix content out info2
  assume "files w path_tmp = Some content
          \<and> safety_check_passes info
          \<and> image_format_permitted cfg (fmt_name info)
          \<and> \<not> available_memory h < minimum_required_memory cfg
          \<and> qemu_img h ''raw'' (fmt_name info) content = Converted out
          \<and> detect_file_format h [p @ ''.converted'' \<mapsto> out] (p @ ''.converted'')
              = Inr (Some info2)
          \<and> fmt_name info2 \<notin> {''raw'', ''gpt''}
          \<and> path_tmp \<noteq> p @ ''.converted''"
  then have content: "files w path_tmp = Some content"
    and safe: "safety_check_passes info"
    and permitted: "image_format_permitted cfg (fmt_name info)"
    and memory: "\<not> available_memory h < minimum_required_memory cfg"
    and conv: "qemu_img h ''raw'' (fmt_name info) content = Converted out"
    and redetect: "detect_file_format h [p @ ''.converted'' \<mapsto> out] (p @ ''.converted'')
                     = Inr (Some info2)"
    and wrong: "fmt_name info2 \<notin> {''raw'', ''gpt''}"
    and distinct: "path_tmp \<noteq> p @ ''.converted''"
    by simp_all
  show "\<exists>w'. image_to_raw h cfg href p path_tmp w = (Inl ImageConvertFailed, w')
          \<and> files w' path_tmp = None
          \<and> files w' (p @ ''.converted'') = None
          \<and> (path_tmp \<noteq> p \<longrightarrow> files w' p = files w p)
          \<and> (files w p = None \<longrightarrow> files w' p = None)"
    by (rule image_to_raw_converted_wrong
          [OF enabled src fmt content safe permitted memory conv redetect wrong distinct])
qed

theorem image_to_raw_conversion_witness:
  "(\<exists>w'. image_to_raw example_host example_conf ''image'' ''/cache/disk''
            ''/cache/disk.part'' example_world = (Inr (), w')
          \<and> (\<exists>info'. detect_file_format example_host (files w') ''/cache/disk''
                         = Inr (Some info')
                \<and> fmt_name info' \<in> {''raw'', ''gpt''}))
   \<and> (\<exists>w'. image_to_raw example_host example_conf ''image'' ''/cache/broken''
            ''/cache/broken.part'' example_world = (Inl ImageConvertFailed, w')
          \<and> files w' ''/cache/broken.part'' = None
          \<and> files w' ''/cache/broken.converted'' = None
          \<and> files w' ''/cache/broken'' = Some [0x01])"
proof -
  have enabled: "\<not> disable_deep_image_inspection example_conf"
    by (simp add: example_conf_def)
  have d1: "detect_file_format example_host (files example_world) ''/cache/disk.part''
              = Inr (Some (example_info ''qcow2'' [0x51, 0x46, 0x49, 0xFB]))"
    by (simp add: example_eval)
  have f1: "fmt_name (example_info ''qcow2'' [0x51, 0x46, 0x49, 0xFB])
              \<notin> {''raw'', ''gpt'', ''iso''}"
    by (simp add: example_info_def)
  have "\<exists>w'. image_to_raw example_host example_conf ''image'' ''/cache/disk''
               ''/cache/disk.part'' example_world = (Inr (), w')"
    by (simp add: example_eval)
  then obtain w1 where
    run1: "image_to_raw example_host example_conf ''image'' ''/cache/disk''
             ''/cache/disk.part'' example_world = (Inr (), w1)"
    by blast
  from image_to_raw_conversion
         [where h = example_host and w = example_world and href = "''image''"
            and p = "''/cache/disk''", OF enabled d1 f1] run1
  have ok: "\<exists>info'. detect_file_format example_host (files w1) ''/cache/disk''
                       = Inr (Some info')
              \<and> fmt_name info' \<in> {''raw'', ''gpt''}"
    by blast
  have d2: "detect_file_format example_host (files example_world) ''/cache/broken.part''
              = Inr (Some (example_info ''qcow2'' [0x51, 0x00]))"
    by (simp add: example_eval)
  have f2: "fmt_name (example_info ''qcow2'' [0x51, 0x00]) \<notin> {''raw'', ''gpt'', ''iso''}"
    by (simp add: example_info_def)
  have hyps: "files example_world ''/cache/broken.part'' = Some [0x51, 0x00]
              \<and> safety_check_passes (example_info ''qcow2'' [0x51, 0x00])
              \<and> image_format_permitted example_conf
                  (fmt_name (example_info ''qcow2'' [0x51, 0x00]))
              \<and> \<not> available_memory example_host < minimum_required_memory example_conf
              \<and> qemu_img example_host ''raw''
                  (fmt_name (example_info ''qcow2'' [0x51, 0x00])) [0x51, 0x00]
                  = Converted [0x51, 0x00]
              \<and> detect_file_format example_host
                  [''/cache/broken'' @ ''.converted'' \<mapsto> [0x51, 0x00]]
                  (''/cache/broken'' @ ''.converted'')
                  = Inr (Some (example_info ''qcow2'' [0x51, 0x00]))
              \<and> fmt_name (example_info ''qcow2'' [0x51, 0x00]) \<notin> {''raw'', ''gpt''}
              \<and> ''/cache/broken.part'' \<noteq> ''/cache/broken'' @ ''.converted''"
    by (simp add: example_eval)
  have before: "files example_world ''/cache/broken'' = Some [0x01]"
    by (simp add: example_world_def)
  from image_to_raw_conversion
         [where h = example_host and w = example_world and href = "''image''"
            and p = "''/cache/broken''", OF enabled d2 f2] hyps
  obtain w2 where
    "image_to_raw example_host example_conf ''image'' ''/cache/broken''
       ''/cache/broken.part'' example_world = (Inl ImageConvertFailed, w2)"
    "files w2 ''/cache/broken.part'' = None"
    "files w2 (''/cache/broken'' @ ''.converted'') = None"
    "''/cache/broken.part'' \<noteq> ''/cache/broken'' \<longrightarrow>
       files w2 ''/cache/broken'' = files example_world ''/cache/broken''"
    by blast
  with before have bad:
    "\<exists>w'. image_to_raw example_host example_conf ''image'' ''/cache/broken''
            ''/cache/broken.part'' example_world = (Inl ImageConvertFailed, w')
          \<and> files w' ''/cache/broken.part'' = None
          \<and> files w' ''/cache/broken.converted'' = None
          \<and> files w' ''/cache/broken'' = Some [0x01]"
    by simp
  from run1 ok bad show ?thesis by blast
qed

subsection \<open>Building the UEFI boot ISO\<close>

lemma trace_rmtree: "trace (rmtree d w) = trace w"
  by (simp add: rmtree_def)

text \<open>
  With the standalone ESP image alone the example call succeeds, and the ISO mastering
  tool is the last thing it runs.
\<close>

lemma create_esp_image_for_uefi_example_run:
  "fst (create_esp_image_for_uefi example_host example_conf ''/srv/boot.iso''
          ''/srv/vmlinuz'' ''/srv/initrd'' None (Some ''/srv/esp.img'')
          (Some [''nofb'', ''vga=normal'']) None None example_world) = Inr ()
   \<and> last (trace (snd (create_esp_image_for_uefi example_host example_conf ''/srv/boot.iso''
          ''/srv/vmlinuz'' ''/srv/initrd'' None (Some ''/srv/esp.img'')
          (Some [''nofb'', ''vga=normal'']) None None example_world)))
       = Execute [''mkisofs'', ''-r'', ''-V'', ''VMEDIA_BOOT_ISO'', ''-l'', ''-e'',
                  ''boot/grub/efiboot.img'', ''-no-emul-boot'', ''-o'', ''/srv/boot.iso'',
                  ''/tmp/tmpx'']"
  by (simp add: create_esp_image_for_uefi_def tempdir_def and_then_def Let_def truthy_def
        example_world_def example_conf_def example_host_def dict_update_def rmtree_def
        tempdir_name_def path_join_def read_source_def startswith_def generate_cfg_def
        write_to_file_def execute_mkisofs_def label_def)

text \<open>
  C7. When \<open>create_esp_image_for_uefi\<close> is called with both a deploy ISO and an ESP
  image, or with neither, it raises \<open>ImageCreationFailed\<close> and the trace is as before
  the call: no ISO has been extracted, no file has been copied into the root file system
  and no tool has been run.
\<close>

theorem create_esp_image_for_uefi_both_or_neither:
  assumes "truthy deploy_iso = truthy esp_image"
  shows "\<exists>w'. create_esp_image_for_uefi h cfg output_file kernel_file ramdisk_file
                 deploy_iso esp_image kernel_params inject_files publisher_id w
               = (Inl ImageCreationFailed, w')
             \<and> trace w' = trace w"
  using assms
  by (simp add: create_esp_image_for_uefi_def tempdir_def and_then_def Let_def trace_rmtree)

theorem create_esp_image_for_uefi_both_or_neither_witness:
  "truthy (Some ''/srv/deploy.iso'') = truthy (Some ''/srv/esp.img'')
   \<and> (\<exists>w'. create_esp_image_for_uefi example_host example_conf ''/srv/boot.iso''
              ''/srv/vmlinuz'' ''/srv/initrd'' (Some ''/srv/deploy.iso'')
              (Some ''/srv/esp.img'') (Some [''nofb'']) None None example_world
            = (Inl ImageCreationFailed, w')
          \<and> trace w' = [])
   \<and> (\<exists>w'. create_esp_image_for_uefi example_host example_conf ''/srv/boot.iso''
              ''/srv/vmlinuz'' ''/srv/initrd'' None None (Some [''nofb'']) None None
              example_world
            = (Inl ImageCreationFailed, w')
          \<and> trace w' = [])"
proof -
  have both: "truthy (Some ''/srv/deploy.iso'') = truthy (Some ''/srv/esp.img'')"
    by (simp add: truthy_def)
  have neither: "truthy None = truthy None"
    by simp
  have t: "trace example_world = []"
    by (simp add: example_world_def)
  from create_esp_image_for_uefi_both_or_neither
         [OF both, of example_host example_conf "''/srv/boot.iso''" "''/srv/vmlinuz''"
            "''/srv/initrd''" "Some [''nofb'']" None None example_world]
       create_esp_image_for_uefi_both_or_neither
         [OF neither, of example_host example_conf "''/srv/boot.iso''" "''/srv/vmlinuz''"
            "''/srv/initrd''" "Some [''nofb'']" None None example_world]
  show ?thesis
    using both by (simp add: t)
qed

end
